theory Spec2Isabelle
  imports Main
begin

section \<open>The iconshop WebGL viewer page\<close>

text \<open>
  The page component \<open>WebglViewerComponent\<close> shows a grid of three.js viewers. It loads
  each model file once, gives a viewer a clone of the object loaded for its path,
  drives all viewers from one \<open>requestAnimationFrame\<close> callback and disposes them on
  teardown.

  JavaScript objects are references, so the objects that are shared or mutated after
  construction live in stores of the \<open>world\<close> record and are named by their index:
  the three.js \<open>Object3D\<close>s (the master models and their clones), the WebGL renderers
  and the orbit controls. A new object is appended to its store, so its reference is
  the length of the store before, and it differs from every reference in use.
  \<open>null\<close> and \<open>undefined\<close> are both \<open>None\<close>: the code only tests them for truthiness.

  three.js, the DOM and the browser are collaborators outside the repository. Their
  calls are taken to return normally, but for \<open>loader.load\<close>, which may throw (see
  \<open>gltf_result\<close>); what they do is kept as far as the component
  reads it back (store contents) or as an entry of the \<open>trace\<close> (loader requests,
  console output, render calls).
\<close>

subsection \<open>Numbers\<close>

text \<open>
  A JavaScript number is an IEEE double. Its arithmetic is not interpreted here: a
  number is a decimal literal (\<open>Lit m e\<close> is \<open>m / 10^e\<close>, which covers every finite
  double) or the sum or quotient the source forms from two numbers, kept as a term.
  \<open>EulerAngle a x y z\<close> is the angle about axis \<open>a\<close> that three.js computes back from
  the quaternion of the rotation with Euler angles \<open>x\<close>, \<open>y\<close>, \<open>z\<close>: the same rotation,
  not necessarily the same doubles.
  An equation between two such terms holds for the doubles they denote; nothing is
  concluded from two terms being different.
\<close>

datatype axis = AxisX | AxisY | AxisZ

datatype number =
    Lit int nat
  | Plus number number
  | Quot number number
  | EulerAngle axis number number number

type_synonym vec3 = "number \<times> number \<times> number"

text \<open>\<open>String(n)\<close> of an integer, as the template literals of the source produce it.\<close>

definition digit :: "nat \<Rightarrow> char" where
  "digit d = ''0123456789'' ! d"

fun decimal :: "nat \<Rightarrow> string" where
  "decimal n = (if n < 10 then [digit n] else decimal (n div 10) @ [digit (n mod 10)])"

definition toString :: "int \<Rightarrow> string" where
  "toString i = (if i < 0 then CHR ''-'' # decimal (nat (- i)) else decimal (nat i))"

subsection \<open>The model configuration\<close>

record ModelConfig =
  index :: int
  displayName :: string
  offer :: string
  scale :: vec3
  pos :: vec3
  modelPath :: string

subsection \<open>three.js and DOM objects\<close>

datatype geometry = BoxGeometry number number number
datatype material = MeshNormalMaterial

text \<open>
  What an \<open>Object3D\<close> draws: a mesh built by the component, or the scene graph the
  loader parsed from a file (opaque, named by a tag). \<open>clone\<close> copies it with the
  transform.
\<close>

datatype content = Mesh geometry material | Gltf string

record Object3D =
  content :: content
  obj_position :: vec3
  obj_rotation :: vec3
  obj_scale :: vec3

datatype child = AmbientLight nat number | DirectionalLight nat number vec3 | Object nat

record Scene =
  background :: nat
  children :: "child list"

record PerspectiveCamera =
  fov :: number
  aspect :: number
  near :: number
  far :: number
  cam_position :: vec3

record HTMLElement =
  elementId :: nat
  clientWidth :: number
  clientHeight :: number

text \<open>
  \<open>parentNode\<close> is the parent of the renderer's canvas (\<open>renderer.domElement\<close>), by the
  \<open>elementId\<close> of the container it was appended to.
\<close>

record WebGLRenderer =
  antialias :: bool
  canvas_size :: "number \<times> number"
  parentNode :: "nat option"
  disposed :: bool

record OrbitControls =
  domElement :: nat
  enableDamping :: bool
  dampingFactor :: number
  target :: vec3
  controls_disposed :: bool

datatype event =
    ConsoleError string
  | ConsoleWarn string
  | Load string
  | ControlsUpdate nat
  | Render nat
  | MarkForCheck

record world =
  objects :: "Object3D list"
  renderers :: "WebGLRenderer list"
  orbitControls :: "OrbitControls list"
  pendingFrames :: "nat list"
  lastFrame :: nat
  resizeListening :: bool
  trace :: "event list"

text \<open>
  What \<open>loader.load\<close> does for a path: it calls \<open>onLoad\<close> with the parsed file, whose
  \<open>scene\<close> is an object or, for a file without a scene, \<open>undefined\<close>; or it calls
  \<open>onError\<close>; or the call itself throws (a path that is no URL, such as \<open>http://\<close>).
\<close>

datatype gltf_result = OnLoad "Object3D option" | OnError | Throws

text \<open>
  The environment of one page: which of the globals the code tests with \<open>typeof\<close> are
  defined, and what the server holds at each path.
\<close>

record env =
  THREE_defined :: bool
  GLTFLoader_defined :: bool
  OrbitControls_defined :: bool
  window_defined :: bool
  served :: "string \<Rightarrow> gltf_result"

subsection \<open>Small helpers for the stores and the trace\<close>

definition emit :: "event \<Rightarrow> world \<Rightarrow> world" where
  "emit ev w = w\<lparr>trace := trace w @ [ev]\<rparr>"

definition alloc :: "Object3D \<Rightarrow> world \<Rightarrow> nat \<times> world" where
  "alloc ob w = (length (objects w), w\<lparr>objects := objects w @ [ob]\<rparr>)"

definition modify_object :: "nat \<Rightarrow> (Object3D \<Rightarrow> Object3D) \<Rightarrow> world \<Rightarrow> world" where
  "modify_object r f w = w\<lparr>objects := (objects w)[r := f (objects w ! r)]\<rparr>"

definition modify_renderer :: "nat \<Rightarrow> (WebGLRenderer \<Rightarrow> WebGLRenderer) \<Rightarrow> world \<Rightarrow> world" where
  "modify_renderer r f w = w\<lparr>renderers := (renderers w)[r := f (renderers w ! r)]\<rparr>"

definition modify_controls :: "nat \<Rightarrow> (OrbitControls \<Rightarrow> OrbitControls) \<Rightarrow> world \<Rightarrow> world" where
  "modify_controls k f w = w\<lparr>orbitControls := (orbitControls w)[k := f (orbitControls w ! k)]\<rparr>"

text \<open>
  \<open>xs[i]\<close> of JavaScript: \<open>undefined\<close> out of range. \<open>item\<close> is the same for an array
  whose entries may themselves be \<open>undefined\<close>.
\<close>

definition at :: "'a list \<Rightarrow> nat \<Rightarrow> 'a option" where
  "at xs i = (if i < length xs then Some (xs ! i) else None)"

definition item :: "'a option list \<Rightarrow> nat \<Rightarrow> 'a option" where
  "item xs i = (if i < length xs then xs ! i else None)"

abbreviation zero3 :: vec3 where
  "zero3 \<equiv> (Lit 0 0, Lit 0 0, Lit 0 0)"

text \<open>A new \<open>Object3D\<close> sits at the origin, unrotated, with scale 1.\<close>

definition new_Object3D :: "content \<Rightarrow> Object3D" where
  "new_Object3D c =
     \<lparr>content = c, obj_position = zero3, obj_rotation = zero3,
      obj_scale = (Lit 1 0, Lit 1 0, Lit 1 0)\<rparr>"

text \<open>
  \<open>Object3D.clone()\<close>: a new object, made by \<open>copy\<close>. Content, position and scale are
  copied as they are; the rotation is copied as a quaternion, from which the new
  object's Euler angles are computed back. The reference \<open>a\<close> is a live one
  (\<open>a < length (objects w)\<close>); JavaScript has no other.
\<close>

definition setFromQuaternion :: "vec3 \<Rightarrow> vec3" where
  "setFromQuaternion r =
     (case r of (x, y, z) \<Rightarrow>
        (EulerAngle AxisX x y z, EulerAngle AxisY x y z, EulerAngle AxisZ x y z))"

definition Object3D_copy :: "Object3D \<Rightarrow> Object3D" where
  "Object3D_copy source = source\<lparr>obj_rotation := setFromQuaternion (obj_rotation source)\<rparr>"

definition clone :: "nat \<Rightarrow> world \<Rightarrow> nat \<times> world" where
  "clone a w = alloc (Object3D_copy (objects w ! a)) w"

subsection \<open>The class \<open>ThreeViewer\<close>\<close>

record ThreeViewer =
  config :: ModelConfig
  renderer :: nat
  camera :: PerspectiveCamera
  scene :: Scene
  controls :: "nat option"
  model :: "nat option"
  container :: HTMLElement

datatype error = Error string | TypeError

text \<open>
  The constructor. It throws when \<open>THREE\<close> is undefined; reading \<open>clientWidth\<close> of an
  undefined container is a \<open>TypeError\<close>. Otherwise it creates the renderer (its canvas
  appended to the container), the camera, the controls when \<open>OrbitControls\<close> is
  defined, and a scene with two lights.
\<close>

definition new_ThreeViewer ::
  "env \<Rightarrow> ModelConfig \<Rightarrow> HTMLElement option \<Rightarrow> world \<Rightarrow> (error + ThreeViewer) \<times> world" where
  "new_ThreeViewer e cfg cont w =
     (if \<not> THREE_defined e then
        (Inl (Error ''Three.js not loaded.''),
         emit (ConsoleError ''THREE.js is not available in the global scope.'') w)
      else case cont of
        None \<Rightarrow> (Inl TypeError, w)
      | Some el \<Rightarrow>
          let width = clientWidth el;
              height = clientHeight el;
              scene0 = \<lparr>background = 0xF3F3F3, children = []\<rparr>;
              rid = length (renderers w);
              w1 = w\<lparr>renderers := renderers w @
                     [\<lparr>antialias = True, canvas_size = (width, height),
                       parentNode = Some (elementId el), disposed = False\<rparr>]\<rparr>;
              cam = \<lparr>fov = Lit 75 0, aspect = Quot width height, near = Lit 1 1,
                     far = Lit 1000 0, cam_position = (Lit 0 0, Lit 0 0, Lit 25 1)\<rparr>;
              (ctl, w2) =
                (if OrbitControls_defined e then
                   (Some (length (orbitControls w1)),
                    w1\<lparr>orbitControls := orbitControls w1 @
                      [\<lparr>domElement = rid, enableDamping = True, dampingFactor = Lit 5 2,
                        target = zero3, controls_disposed = False\<rparr>]\<rparr>)
                 else (None, w1));
              scene1 = scene0\<lparr>children := children scene0 @ [AmbientLight 0xffffff (Lit 8 1)]\<rparr>;
              scene2 = scene1\<lparr>children := children scene1 @
                         [DirectionalLight 0xffffff (Lit 2 0) (Lit 5 0, Lit 10 0, Lit 75 1)]\<rparr>
          in (Inr \<lparr>config = cfg, renderer = rid, camera = cam, scene = scene2,
                   controls = ctl, model = None, container = el\<rparr>, w2))"

text \<open>
  \<open>addModel\<close>: nothing for a falsy argument; otherwise the viewer keeps a clone,
  sets the clone's scale and position from its config and adds it to its scene.
\<close>

definition addModel :: "ThreeViewer \<Rightarrow> nat option \<Rightarrow> world \<Rightarrow> ThreeViewer \<times> world" where
  "addModel v loadedModel w =
     (case loadedModel of
        None \<Rightarrow> (v, w)
      | Some m \<Rightarrow>
          let (r, w1) = clone m w;
              v1 = v\<lparr>model := Some r\<rparr>;
              w2 = modify_object r (\<lambda>ob. ob\<lparr>obj_scale := scale (config v1)\<rparr>) w1;
              w3 = modify_object r (\<lambda>ob. ob\<lparr>obj_position := pos (config v1)\<rparr>) w2
          in (v1\<lparr>scene := (scene v1)\<lparr>children := children (scene v1) @ [Object r]\<rparr>\<rparr>, w3))"

text \<open>\<open>this.model.rotation.y += 0.007\<close>\<close>

definition rotate_y :: "Object3D \<Rightarrow> Object3D" where
  "rotate_y ob =
     (case obj_rotation ob of (rx, ry, rz) \<Rightarrow> ob\<lparr>obj_rotation := (rx, Plus ry (Lit 7 3), rz)\<rparr>)"

definition update :: "ThreeViewer \<Rightarrow> world \<Rightarrow> world" where
  "update v w =
     (let w1 = (case controls v of Some k \<Rightarrow> emit (ControlsUpdate k) w | None \<Rightarrow> w);
          w2 = (case model v of Some r \<Rightarrow> modify_object r rotate_y w1 | None \<Rightarrow> w1)
      in emit (Render (renderer v)) w2)"

text \<open>
  \<open>dispose\<close>. The field \<open>renderer\<close> is assigned by every constructor call that
  returns, so the test \<open>if (this.renderer)\<close> holds. (\<open>handleResize\<close> and the
  component's \<open>onResize\<close>, which only resize camera and renderer, are left out of
  this development.)
\<close>

definition dispose :: "ThreeViewer \<Rightarrow> world \<Rightarrow> world" where
  "dispose v w =
     (let w1 = (case controls v of
                  Some k \<Rightarrow> modify_controls k (\<lambda>c. c\<lparr>controls_disposed := True\<rparr>) w
                | None \<Rightarrow> w);
          w2 = modify_renderer (renderer v) (\<lambda>r. r\<lparr>disposed := True\<rparr>) w1
      in if parentNode (renderers w2 ! renderer v) \<noteq> None
         then modify_renderer (renderer v) (\<lambda>r. r\<lparr>parentNode := None\<rparr>) w2
         else w2)"

subsection \<open>Promises, \<open>Set\<close> and \<open>Map\<close>\<close>

text \<open>
  A promise is given by how it settles. \<open>Promise.all\<close> resolves with all the values,
  or rejects with the first rejection; \<open>await\<close> of a rejected promise throws.
\<close>

datatype 'a promise = Resolved 'a | Rejected error

fun Promise_all :: "'a promise list \<Rightarrow> 'a list promise" where
  "Promise_all [] = Resolved []"
| "Promise_all (Rejected err # ps) = Rejected err"
| "Promise_all (Resolved x # ps) =
     (case Promise_all ps of Resolved xs \<Rightarrow> Resolved (x # xs) | Rejected err \<Rightarrow> Rejected err)"

text \<open>
  \<open>Array.from(new Set(xs))\<close>: a \<open>Set\<close> keeps its elements in insertion order and drops
  an element it already has, so the first occurrence of each element stays.
\<close>

definition Set_add :: "'a \<Rightarrow> 'a list \<Rightarrow> 'a list" where
  "Set_add x s = (if x \<in> set s then s else s @ [x])"

definition Array_from_Set :: "'a list \<Rightarrow> 'a list" where
  "Array_from_Set xs = fold Set_add xs []"

text \<open>
  A \<open>Map\<close> is read with \<open>get\<close> only, so it is the function from a key to the value
  last set for it, \<open>None\<close> being \<open>undefined\<close>.
\<close>

definition Map_set :: "'k \<Rightarrow> 'v option \<Rightarrow> ('k \<Rightarrow> 'v option) \<Rightarrow> ('k \<Rightarrow> 'v option)" where
  "Map_set k v m = m(k := v)"

text \<open>\<open>Array.from({ length: n }, (_, i) => f i)\<close>\<close>

definition Array_from :: "nat \<Rightarrow> (nat \<Rightarrow> 'a) \<Rightarrow> 'a list" where
  "Array_from n f = map f [0..<n]"

subsection \<open>The component \<open>WebglViewerComponent\<close>\<close>

record WebglViewerComponent =
  allRendererContainers :: "HTMLElement list"
  viewers :: "ThreeViewer list"
  animateId :: nat
  isLoaded :: bool
  allModelConfigs :: "ModelConfig list"

definition GLB_MODEL_PATH_G :: string where
  "GLB_MODEL_PATH_G = ''/glbfiles/googlelogo.glb''"

definition GLB_MODEL_PATH_EDGE :: string where
  "GLB_MODEL_PATH_EDGE = ''/glbfiles/edge.glb''"

definition GLB_MODEL_PATH_OPER :: string where
  "GLB_MODEL_PATH_OPER = ''/glbfiles/opera.glb''"

text \<open>The initial value of the field \<open>allModelConfigs\<close>: 6 + 6 + 4 entries.\<close>

definition initial_allModelConfigs :: "ModelConfig list" where
  "initial_allModelConfigs =
     Array_from 6 (\<lambda>i.
       \<lparr>index = 1 + int i,
        displayName = ''G logo '' @ toString (int i + 1),
        offer = toString (30 - int i) @ ''% Discount'',
        scale = (Lit 2 0, Lit 2 0, Lit 2 0),
        pos = zero3,
        modelPath = GLB_MODEL_PATH_G\<rparr>)
     @ Array_from 6 (\<lambda>i.
       \<lparr>index = 6 + int i,
        displayName = ''Edge logo '' @ toString (7 + int i),
        offer = toString (10 + int i) @ ''% Off'',
        scale = (Lit 2 0, Lit 2 0, Lit 2 0),
        pos = zero3,
        modelPath = GLB_MODEL_PATH_EDGE\<rparr>)
     @ Array_from 4 (\<lambda>i.
       \<lparr>index = 12 + int i,
        displayName = ''Opera '' @ toString (13 + int i),
        offer = toString (10 + int i) @ ''% Off'',
        scale = (Lit 1 0, Lit 1 0, Lit 1 0),
        pos = zero3,
        modelPath = GLB_MODEL_PATH_OPER\<rparr>)"

text \<open>
  A new component, with the containers the view holds for it. The constructor
  registers a callback that adds the resize listener when there is a \<open>window\<close>.
\<close>

definition new_WebglViewerComponent :: "HTMLElement list \<Rightarrow> WebglViewerComponent" where
  "new_WebglViewerComponent containers =
     \<lparr>allRendererContainers = containers, viewers = [], animateId = 0, isLoaded = False,
      allModelConfigs = initial_allModelConfigs\<rparr>"

definition afterNextRender_callback :: "env \<Rightarrow> world \<Rightarrow> world" where
  "afterNextRender_callback e w =
     (if window_defined e then w\<lparr>resizeListening := True\<rparr> else w)"

text \<open>
  \<open>checkThreeJsLoaded\<close> polls every 50 ms until the three globals are defined. They
  are module imports, fixed for the page, so the check resolves at once or never:
  \<open>None\<close> is the promise that stays pending.
\<close>

partial_function (option) checkThreeJsLoaded :: "env \<Rightarrow> unit option" where
  "checkThreeJsLoaded e =
     (if THREE_defined e \<and> GLTFLoader_defined e \<and> OrbitControls_defined e
      then Some ()
      else checkThreeJsLoaded e)"

text \<open>
  \<open>loadModel\<close>: one call of \<open>loader.load\<close>, inside the executor of a new promise. On
  \<open>onLoad\<close> the promise resolves with \<open>gltf.scene\<close>, whatever it is; on \<open>onError\<close> with
  a 1 x 1 x 1 placeholder box. \<open>reject\<close> is never called, and nothing catches an
  exception of \<open>loader.load\<close>: thrown inside the executor, it rejects the promise.
  A loaded scene is an object the loader made: it enters the store when the promise
  resolves.
\<close>

definition loadModel :: "env \<Rightarrow> string \<Rightarrow> world \<Rightarrow> nat option promise \<times> world" where
  "loadModel e path w =
     (let w1 = emit (Load path) w
      in case served e path of
           Throws \<Rightarrow> (Rejected TypeError, w1)
         | OnLoad gltf_scene \<Rightarrow>
             (case gltf_scene of
                None \<Rightarrow> (Resolved None, w1)
              | Some ob \<Rightarrow> (let (r, w2) = alloc ob w1 in (Resolved (Some r), w2)))
         | OnError \<Rightarrow>
             (let w2 = emit (ConsoleWarn (''Error loading GLB model at '' @ path @ '':'')) w1;
                  geometry = BoxGeometry (Lit 1 0) (Lit 1 0) (Lit 1 0);
                  material = MeshNormalMaterial;
                  (fallbackMesh, w3) = alloc (new_Object3D (Mesh geometry material)) w2
              in (Resolved (Some fallbackMesh), w3)))"

text \<open>
  \<open>uniqueModelPaths.map(path => this.loadModel(path))\<close>: every path is requested,
  also after one whose request threw, and every promise is taken to be settled when
  the \<open>await\<close> goes on.
\<close>

fun loadModels ::
  "env \<Rightarrow> string list \<Rightarrow> world \<Rightarrow> nat option promise list \<times> world" where
  "loadModels e [] w = ([], w)"
| "loadModels e (path # paths) w =
     (let (p, w1) = loadModel e path w;
          (ps, w2) = loadModels e paths w1
      in (p # ps, w2))"

definition requestAnimationFrame :: "world \<Rightarrow> nat \<times> world" where
  "requestAnimationFrame w =
     (let h = lastFrame w + 1
      in (h, w\<lparr>lastFrame := h, pendingFrames := pendingFrames w @ [h]\<rparr>))"

definition cancelAnimationFrame :: "nat \<Rightarrow> world \<Rightarrow> world" where
  "cancelAnimationFrame h w = w\<lparr>pendingFrames := removeAll h (pendingFrames w)\<rparr>"

text \<open>One run of the \<open>animate\<close> callback.\<close>

definition animate :: "WebglViewerComponent \<Rightarrow> world \<Rightarrow> WebglViewerComponent \<times> world" where
  "animate c w =
     (let (h, w1) = requestAnimationFrame w;
          c1 = c\<lparr>animateId := h\<rparr>
      in (c1, fold update (viewers c1) w1))"

text \<open>
  Step 4 of \<open>ngAfterViewInit\<close>: \<open>allModelConfigs.map((config, index) => ...)\<close>, from
  index \<open>i\<close> on. An exception of the constructor ends the map.
\<close>

fun make_viewers ::
  "env \<Rightarrow> (string \<Rightarrow> nat option) \<Rightarrow> HTMLElement list \<Rightarrow> ModelConfig list \<Rightarrow> nat \<Rightarrow> world
     \<Rightarrow> (error + ThreeViewer list) \<times> world" where
  "make_viewers e masterModels containerElements [] i w = (Inr [], w)"
| "make_viewers e masterModels containerElements (cfg # cfgs) i w =
     (let cont = at containerElements i;
          masterModel = masterModels (modelPath cfg)
      in case new_ThreeViewer e cfg cont w of
           (Inl err, w1) \<Rightarrow> (Inl err, w1)
         | (Inr viewer, w1) \<Rightarrow>
             (let (viewer1, w2) =
                    (case masterModel of
                       Some m \<Rightarrow> addModel viewer (Some m) w1
                     | None \<Rightarrow> (viewer, w1))
              in (case make_viewers e masterModels containerElements cfgs (i + 1) w2 of
                    (Inl err, w3) \<Rightarrow> (Inl err, w3)
                  | (Inr vs, w3) \<Rightarrow> (Inr (viewer1 # vs), w3))))"

text \<open>
  \<open>ngAfterViewInit\<close>, run to its end without other callbacks in between. \<open>None\<close>: the
  library check stays pending and nothing else happens. An exception (a rejected
  load at the \<open>await\<close>, a throwing constructor) is caught and logged. A master that
  is \<open>undefined\<close> fails the test \<open>if (masterModel)\<close>: its viewers are built and stay
  without a model.
\<close>

definition ngAfterViewInit ::
  "env \<Rightarrow> WebglViewerComponent \<Rightarrow> world \<Rightarrow> (WebglViewerComponent \<times> world) option" where
  "ngAfterViewInit e c w =
     (case checkThreeJsLoaded e of
        None \<Rightarrow> None
      | Some _ \<Rightarrow>
          Some
           (let uniqueModelPaths = Array_from_Set (map modelPath (allModelConfigs c));
                (modelPromises, w1) = loadModels e uniqueModelPaths w
            in case Promise_all modelPromises of
                 Rejected err \<Rightarrow> (c, emit (ConsoleError ''Initialization failed:'') w1)
               | Resolved loadedModels \<Rightarrow>
                   (let masterModels =
                          fold (\<lambda>(path, index). Map_set path (item loadedModels index))
                            (zip uniqueModelPaths [0..<length uniqueModelPaths]) (\<lambda>_. None);
                        containerElements = allRendererContainers c
                    in if length containerElements < length (allModelConfigs c) then
                         (c, emit (ConsoleError
                                (''Missing '' @
                                 toString (int (length (allModelConfigs c)) -
                                           int (length containerElements)) @
                                 '' DOM containers for models.'')) w1)
                       else
                         (case make_viewers e masterModels containerElements
                                 (allModelConfigs c) 0 w1 of
                            (Inl err, w2) \<Rightarrow>
                              (c, emit (ConsoleError ''Initialization failed:'') w2)
                          | (Inr vs, w2) \<Rightarrow>
                              animate (c\<lparr>viewers := vs, isLoaded := True\<rparr>)
                                (emit MarkForCheck w2)))))"

definition ngOnDestroy :: "env \<Rightarrow> WebglViewerComponent \<Rightarrow> world \<Rightarrow> world" where
  "ngOnDestroy e c w =
     (let w1 = (if animateId c \<noteq> 0 then cancelAnimationFrame (animateId c) w else w);
          w2 = fold dispose (viewers c) w1
      in if window_defined e then w2\<lparr>resizeListening := False\<rparr> else w2)"

subsection \<open>The routing table\<close>

datatype component_class = WebglViewerComponent_class | AboutUsComponent_class

record Route =
  path :: string
  component :: component_class

definition routes :: "Route list" where
  "routes =
     [\<lparr>path = [], component = WebglViewerComponent_class\<rparr>,
      \<lparr>path = ''about-us'', component = AboutUsComponent_class\<rparr>]"

subsection \<open>The earlier single-model component\<close>

text \<open>
  \<open>src/app/webgl-scene/webgl-viewer.component.ts\<close> is the same component with one model
  file. Its \<open>addModel\<close>, \<open>update\<close> and \<open>animate\<close> are the text of the ones above; its
  loader is \<open>loadMasterModel\<close>, with the one fixed path and a 20 x 20 x 20 placeholder.
\<close>

definition GLB_MODEL_PATH :: string where
  "GLB_MODEL_PATH = ''/glbfiles/googlelogo.glb''"

definition loadMasterModel :: "env \<Rightarrow> world \<Rightarrow> nat option promise \<times> world" where
  "loadMasterModel e w =
     (let w1 = emit (Load GLB_MODEL_PATH) w
      in case served e GLB_MODEL_PATH of
           Throws \<Rightarrow> (Rejected TypeError, w1)
         | OnLoad gltf_scene \<Rightarrow>
             (case gltf_scene of
                None \<Rightarrow> (Resolved None, w1)
              | Some ob \<Rightarrow> (let (r, w2) = alloc ob w1 in (Resolved (Some r), w2)))
         | OnError \<Rightarrow>
             (let w2 = emit (ConsoleError ''Error loading GLB model:'') w1;
                  geometry = BoxGeometry (Lit 20 0) (Lit 20 0) (Lit 20 0);
                  material = MeshNormalMaterial;
                  (fallbackMesh, w3) = alloc (new_Object3D (Mesh geometry material)) w2
              in (Resolved (Some fallbackMesh), w3)))"

subsection \<open>Reading the trace\<close>

text \<open>The paths requested from the loader and the renderers that drew, in order.\<close>

definition requests :: "event list \<Rightarrow> string list" where
  "requests t = concat (map (\<lambda>ev. case ev of Load p \<Rightarrow> [p] | _ \<Rightarrow> []) t)"

definition renders :: "event list \<Rightarrow> nat list" where
  "renders t = concat (map (\<lambda>ev. case ev of Render r \<Rightarrow> [r] | _ \<Rightarrow> []) t)"

text \<open>
  The object the promise of \<open>loadModel\<close> resolves with: the loaded scene or the
  placeholder box. \<open>None\<close>: it resolves with \<open>undefined\<close> (a file without a scene), or
  it rejects.
\<close>

definition resolved_object :: "env \<Rightarrow> string \<Rightarrow> Object3D option" where
  "resolved_object e p =
     (case served e p of
        OnLoad gltf_scene \<Rightarrow> gltf_scene
      | OnError \<Rightarrow>
          Some (new_Object3D
                  (Mesh (BoxGeometry (Lit 1 0) (Lit 1 0) (Lit 1 0)) MeshNormalMaterial))
      | Throws \<Rightarrow> None)"

text \<open>
  The clone a viewer with config \<open>cfg\<close> holds when \<open>ngAfterViewInit\<close> is through: the copy
  of what the load of its path resolved with, with the config's scale and position,
  turned once by the first frame. \<open>None\<close> when that load gave no object.
\<close>

definition viewer_clone :: "env \<Rightarrow> ModelConfig \<Rightarrow> Object3D option" where
  "viewer_clone e cfg =
     map_option
       (\<lambda>ob. rotate_y ((Object3D_copy ob)\<lparr>obj_scale := scale cfg, obj_position := pos cfg\<rparr>))
       (resolved_object e (modelPath cfg))"

text \<open>
  \<open>refers obs v x\<close>: the value \<open>v\<close>, a reference or \<open>undefined\<close>, stands for \<open>x\<close> in the
  store \<open>obs\<close>: it is \<open>undefined\<close> when there is no object, and a live reference to the
  object otherwise.
\<close>

definition refers :: "Object3D list \<Rightarrow> nat option \<Rightarrow> Object3D option \<Rightarrow> bool" where
  "refers obs v x =
     (case x of
        None \<Rightarrow> v = None
      | Some ob \<Rightarrow> (case v of None \<Rightarrow> False | Some r \<Rightarrow> r < length obs \<and> obs ! r = ob))"

text \<open>
  The references of objects appended to a store of size \<open>n\<close>, one for each entry that
  is an object, in order.
\<close>

fun fresh_refs :: "nat \<Rightarrow> 'a option list \<Rightarrow> nat option list" where
  "fresh_refs n [] = []"
| "fresh_refs n (None # xs) = None # fresh_refs n xs"
| "fresh_refs n (Some x # xs) = Some n # fresh_refs (Suc n) xs"

text \<open>The message of the container guard of \<open>ngAfterViewInit\<close>.\<close>

definition missing_containers :: "WebglViewerComponent \<Rightarrow> string" where
  "missing_containers c =
     ''Missing '' @
     toString (int (length (allModelConfigs c)) - int (length (allRendererContainers c))) @
     '' DOM containers for models.''"

subsection \<open>A small page\<close>

text \<open>
  One model file that loads, every other path failing; one config, one 300 x 200
  container. \<open>example_world\<close> and \<open>example_viewer\<close> are the world and the viewer after
  the file was loaded and the constructor ran (lemma \<open>example_world_built\<close>).
\<close>

definition example_env :: env where
  "example_env =
     \<lparr>THREE_defined = True, GLTFLoader_defined = True, OrbitControls_defined = True,
      window_defined = True,
      served = (\<lambda>p. if p = GLB_MODEL_PATH_G
                    then OnLoad (Some (new_Object3D (Gltf ''googlelogo'')))
                    else OnError)\<rparr>"

text \<open>
  The same page where every file is a GLB without a scene, and the path \<open>http://\<close>,
  which is no URL, makes \<open>loader.load\<close> throw.
\<close>

definition sceneless_env :: env where
  "sceneless_env =
     \<lparr>THREE_defined = True, GLTFLoader_defined = True, OrbitControls_defined = True,
      window_defined = True,
      served = (\<lambda>p. if p = ''http://'' then Throws else OnLoad None)\<rparr>"

definition example_config :: ModelConfig where
  "example_config =
     \<lparr>index = 1, displayName = ''G logo 1'', offer = ''30% Discount'',
      scale = (Lit 2 0, Lit 2 0, Lit 2 0), pos = zero3, modelPath = GLB_MODEL_PATH_G\<rparr>"

definition example_container :: "nat \<Rightarrow> HTMLElement" where
  "example_container i = \<lparr>elementId = i, clientWidth = Lit 300 0, clientHeight = Lit 200 0\<rparr>"

definition new_page :: world where
  "new_page =
     \<lparr>objects = [], renderers = [], orbitControls = [], pendingFrames = [], lastFrame = 0,
      resizeListening = False, trace = []\<rparr>"

definition example_world :: world where
  "example_world =
     \<lparr>objects = [new_Object3D (Gltf ''googlelogo'')],
      renderers = [\<lparr>antialias = True, canvas_size = (Lit 300 0, Lit 200 0),
                    parentNode = Some 0, disposed = False\<rparr>],
      orbitControls = [\<lparr>domElement = 0, enableDamping = True, dampingFactor = Lit 5 2,
                        target = zero3, controls_disposed = False\<rparr>],
      pendingFrames = [], lastFrame = 0, resizeListening = True,
      trace = [Load GLB_MODEL_PATH_G]\<rparr>"

definition example_viewer :: ThreeViewer where
  "example_viewer =
     \<lparr>config = example_config, renderer = 0,
      camera = \<lparr>fov = Lit 75 0, aspect = Quot (Lit 300 0) (Lit 200 0), near = Lit 1 1,
                far = Lit 1000 0, cam_position = (Lit 0 0, Lit 0 0, Lit 25 1)\<rparr>,
      scene = \<lparr>background = 0xF3F3F3,
               children = [AmbientLight 0xffffff (Lit 8 1),
                           DirectionalLight 0xffffff (Lit 2 0) (Lit 5 0, Lit 10 0, Lit 75 1)]\<rparr>,
      controls = Some 0, model = None, container = example_container 0\<rparr>"

text \<open>
  The viewer and the world once \<open>addModel\<close> gave the viewer its clone of the master,
  the component holding that viewer just before the first \<open>animate\<close>, and component
  and world after it: the state \<open>ngAfterViewInit\<close> leaves (lemma \<open>example_init\<close>).
\<close>

definition example_loaded_viewer :: ThreeViewer where
  "example_loaded_viewer = fst (addModel example_viewer (Some 0) example_world)"

definition example_loaded_world :: world where
  "example_loaded_world = snd (addModel example_viewer (Some 0) example_world)"

definition example_component :: WebglViewerComponent where
  "example_component =
     \<lparr>allRendererContainers = [example_container 0],
      viewers = [example_loaded_viewer],
      animateId = 0, isLoaded = True, allModelConfigs = [example_config]\<rparr>"

definition example_running :: "WebglViewerComponent \<times> world" where
  "example_running = animate example_component (emit MarkForCheck example_loaded_world)"

text \<open>
  A component with the one example config and its container, before
  \<open>ngAfterViewInit\<close>; and the component as the page creates it, with its sixteen
  configs: once with a container for each, once with a single container.
\<close>

definition example_single_page :: WebglViewerComponent where
  "example_single_page =
     \<lparr>allRendererContainers = [example_container 0], viewers = [], animateId = 0,
      isLoaded = False, allModelConfigs = [example_config]\<rparr>"

definition example_page :: WebglViewerComponent where
  "example_page = new_WebglViewerComponent (map example_container [0 ..< 16])"

definition example_short_page :: WebglViewerComponent where
  "example_short_page = new_WebglViewerComponent [example_container 0]"

section \<open>Properties\<close>

subsection \<open>Auxiliary facts\<close>

subsubsection \<open>The trace\<close>

lemma requests_append [simp]: "requests (xs @ ys) = requests xs @ requests ys"
  by (simp add: requests_def)

lemma renders_append [simp]: "renders (xs @ ys) = renders xs @ renders ys"
  by (simp add: renders_def)

lemma requests_single [simp]:
  "requests [Load p] = [p]" "requests [ConsoleError s] = []" "requests [ConsoleWarn s] = []"
  "requests [ControlsUpdate k] = []" "requests [Render r] = []" "requests [MarkForCheck] = []"
  by (simp_all add: requests_def)

lemma renders_single [simp]:
  "renders [Load p] = []" "renders [ConsoleError s] = []" "renders [ConsoleWarn s] = []"
  "renders [ControlsUpdate k] = []" "renders [Render r] = [r]" "renders [MarkForCheck] = []"
  by (simp_all add: renders_def)

subsubsection \<open>What one call does\<close>

text \<open>Each operation as one equation on the viewer and the world.\<close>

lemma loadModel_eq:
  "loadModel e p w =
     (if served e p = Throws then Rejected TypeError
      else Resolved (map_option (\<lambda>_. length (objects w)) (resolved_object e p)),
      w\<lparr>objects := objects w @ (case resolved_object e p of None \<Rightarrow> [] | Some ob \<Rightarrow> [ob]),
        trace := trace w @ Load p #
          (case served e p of
             OnError \<Rightarrow> [ConsoleWarn (''Error loading GLB model at '' @ p @ '':'')]
           | _ \<Rightarrow> [])\<rparr>)"
  by (simp add: loadModel_def emit_def alloc_def resolved_object_def Let_def
      split: gltf_result.split option.split)

lemma addModel_Some_eq:
  "addModel v (Some m) w =
     (v\<lparr>model := Some (length (objects w)),
        scene := (scene v)\<lparr>children := children (scene v) @ [Object (length (objects w))]\<rparr>\<rparr>,
      w\<lparr>objects := objects w @
           [(Object3D_copy (objects w ! m))
              \<lparr>obj_scale := scale (config v), obj_position := pos (config v)\<rparr>]\<rparr>)"
  by (simp add: addModel_def clone_def alloc_def modify_object_def Let_def)

lemma update_objects:
  "objects (update v w) =
     (case model v of None \<Rightarrow> objects w
      | Some r \<Rightarrow> (objects w)[r := rotate_y (objects w ! r)])"
  by (simp add: update_def emit_def modify_object_def Let_def split: option.split)

lemma update_trace:
  "trace (update v w) =
     trace w @ (case controls v of Some k \<Rightarrow> [ControlsUpdate k] | None \<Rightarrow> []) @ [Render (renderer v)]"
  by (simp add: update_def emit_def modify_object_def Let_def split: option.split)

lemma update_frame:
  "pendingFrames (update v w) = pendingFrames w" "lastFrame (update v w) = lastFrame w"
  "renderers (update v w) = renderers w" "orbitControls (update v w) = orbitControls w"
  "resizeListening (update v w) = resizeListening w"
  by (simp_all add: update_def emit_def modify_object_def Let_def split: option.split)

subsubsection \<open>The library check\<close>

text \<open>It resolves exactly when the three globals are defined.\<close>

lemma check_resolves:
  "THREE_defined e \<and> GLTFLoader_defined e \<and> OrbitControls_defined e \<Longrightarrow>
   checkThreeJsLoaded e = Some ()"
  by (subst checkThreeJsLoaded.simps) simp

lemma check_Some_defined:
  assumes "checkThreeJsLoaded e = Some u"
  shows "THREE_defined e \<and> GLTFLoader_defined e \<and> OrbitControls_defined e"
  using assms
  by (rule checkThreeJsLoaded.raw_induct [rotated 1]) (simp split: if_splits)

lemma check_pending:
  "\<not> (THREE_defined e \<and> GLTFLoader_defined e \<and> OrbitControls_defined e) \<Longrightarrow>
   checkThreeJsLoaded e = None"
  using check_Some_defined [of e] by (cases "checkThreeJsLoaded e") auto

subsubsection \<open>The unique paths\<close>

lemma fold_Set_add_set: "set (fold Set_add xs s) = set s \<union> set xs"
  by (induction xs arbitrary: s) (auto simp add: Set_add_def)

lemma fold_Set_add_distinct: "distinct s \<Longrightarrow> distinct (fold Set_add xs s)"
  by (induction xs arbitrary: s) (auto simp add: Set_add_def)

lemma Array_from_Set_set: "set (Array_from_Set xs) = set xs"
  by (simp add: Array_from_Set_def fold_Set_add_set)

lemma Array_from_Set_distinct: "distinct (Array_from_Set xs)"
  by (simp add: Array_from_Set_def fold_Set_add_distinct)

subsubsection \<open>Loading the masters\<close>

text \<open>
  Every path is requested once, in order. The objects the promises resolve with are
  appended to the store in the order of the paths. \<open>Promise.all\<close> rejects when a
  request threw, and otherwise resolves with the masters' references, \<open>undefined\<close>
  for a file without a scene.
\<close>

lemma loadModels_Cons:
  "loadModels e (p # ps) w =
     (fst (loadModel e p w) # fst (loadModels e ps (snd (loadModel e p w))),
      snd (loadModels e ps (snd (loadModel e p w))))"
  by (simp add: case_prod_unfold Let_def)

lemma loadModels_all:
  "Promise_all (fst (loadModels e ps w)) =
     (if list_ex (\<lambda>p. served e p = Throws) ps then Rejected TypeError
      else Resolved (fresh_refs (length (objects w)) (map (resolved_object e) ps)))"
proof (induction ps arbitrary: w)
  case Nil
  show ?case by simp
next
  case (Cons p ps)
  let ?w1 = "snd (loadModel e p w)"
  have len: "length (objects ?w1) =
               (case resolved_object e p of None \<Rightarrow> length (objects w)
                | Some ob \<Rightarrow> Suc (length (objects w)))"
    by (simp add: loadModel_eq split: option.split)
  show ?case
  proof (cases "served e p = Throws")
    case True
    then show ?thesis
      unfolding loadModels_Cons by (simp add: loadModel_eq)
  next
    case False
    then have hd: "fst (loadModel e p w) =
        Resolved (map_option (\<lambda>_. length (objects w)) (resolved_object e p))"
      by (simp add: loadModel_eq)
    show ?thesis
      unfolding loadModels_Cons fst_conv hd
      using False by (cases "resolved_object e p") (simp_all add: Cons.IH [of ?w1] len)
  qed
qed

lemma loadModels_objects:
  "objects (snd (loadModels e ps w)) = objects w @ List.map_filter (resolved_object e) ps"
  by (induction ps arbitrary: w)
     (simp_all add: loadModels_Cons loadModel_eq List.map_filter_simps
        del: loadModels.simps(2) split: option.split)

lemma loadModels_requests:
  "requests (trace (snd (loadModels e ps w))) = requests (trace w) @ ps"
  by (induction ps arbitrary: w)
     (simp_all add: loadModels_Cons loadModel_eq requests_def del: loadModels.simps(2)
        split: gltf_result.split)

lemma loadModels_renders:
  "renders (trace (snd (loadModels e ps w))) = renders (trace w)"
  by (induction ps arbitrary: w)
     (simp_all add: loadModels_Cons loadModel_eq renders_def del: loadModels.simps(2)
        split: gltf_result.split)

lemma loadModels_frame:
  "renderers (snd (loadModels e ps w)) = renderers w"
  "orbitControls (snd (loadModels e ps w)) = orbitControls w"
  "pendingFrames (snd (loadModels e ps w)) = pendingFrames w"
  "lastFrame (snd (loadModels e ps w)) = lastFrame w"
  "resizeListening (snd (loadModels e ps w)) = resizeListening w"
  by (induction ps arbitrary: w)
     (simp_all add: loadModels_Cons loadModel_eq del: loadModels.simps(2))

subsubsection \<open>A frame over all viewers\<close>

lemma renders_Nil [simp]: "renders [] = []"
  by (simp add: renders_def)

lemma requests_Nil [simp]: "requests [] = []"
  by (simp add: requests_def)

lemma fold_update_trace:
  "trace (fold update vs w) =
     trace w @
     concat (map (\<lambda>v. (case controls v of Some k \<Rightarrow> [ControlsUpdate k] | None \<Rightarrow> []) @
                         [Render (renderer v)]) vs)"
  by (induction vs arbitrary: w) (simp_all add: update_trace)

lemma fold_update_renders:
  "renders (trace (fold update vs w)) = renders (trace w) @ map renderer vs"
  by (induction vs arbitrary: w) (simp_all add: update_trace split: option.split)

lemma fold_update_frame:
  "pendingFrames (fold update vs w) = pendingFrames w"
  "lastFrame (fold update vs w) = lastFrame w"
  "renderers (fold update vs w) = renderers w"
  "orbitControls (fold update vs w) = orbitControls w"
  "resizeListening (fold update vs w) = resizeListening w"
  "length (objects (fold update vs w)) = length (objects w)"
  by (induction vs arbitrary: w) (simp_all add: update_frame update_objects split: option.split)

lemma animate_eq:
  "animate c w =
     (c\<lparr>animateId := lastFrame w + 1\<rparr>,
      fold update (viewers c)
        (w\<lparr>lastFrame := lastFrame w + 1, pendingFrames := pendingFrames w @ [lastFrame w + 1]\<rparr>))"
  by (simp add: animate_def requestAnimationFrame_def Let_def)

subsubsection \<open>Disposal\<close>

text \<open>A renderer once disposed and detached stays so, whatever is disposed next.\<close>

lemma dispose_renderers:
  "renderers (dispose v w) =
     (renderers w)[renderer v := (renderers w ! renderer v)\<lparr>disposed := True, parentNode := None\<rparr>]"
proof -
  obtain a s p d where r:
    "renderers w ! renderer v =
       \<lparr>antialias = a, canvas_size = s, parentNode = p, disposed = d\<rparr>"
    by (cases "renderers w ! renderer v") simp
  have m: "renderers (modify_controls k f w) = renderers w" for k f
    by (simp add: modify_controls_def)
  define w1 where "w1 = (case controls v of
                  Some k \<Rightarrow> modify_controls k (\<lambda>c. c\<lparr>controls_disposed := True\<rparr>) w
                | None \<Rightarrow> w)"
  have w1: "renderers w1 = renderers w"
    by (simp add: w1_def m split: option.split)
  have d: "dispose v w =
     (let w2 = modify_renderer (renderer v) (\<lambda>r. r\<lparr>disposed := True\<rparr>) w1
      in if parentNode (renderers w2 ! renderer v) \<noteq> None
         then modify_renderer (renderer v) (\<lambda>r. r\<lparr>parentNode := None\<rparr>) w2
         else w2)"
    by (simp add: dispose_def w1_def Let_def)
  show ?thesis
  proof (cases "renderer v < length (renderers w)")
    case True
    then show ?thesis
      by (simp add: d Let_def modify_renderer_def w1 r)
  next
    case False
    then show ?thesis
      by (simp add: d Let_def modify_renderer_def w1 list_update_beyond)
  qed
qed

lemma dispose_controls:
  "orbitControls (dispose v w) =
     (case controls v of
        Some k \<Rightarrow> (orbitControls w)[k := (orbitControls w ! k)\<lparr>controls_disposed := True\<rparr>]
      | None \<Rightarrow> orbitControls w)"
  by (simp add: dispose_def modify_renderer_def modify_controls_def Let_def split: option.split)

lemma dispose_frame:
  "pendingFrames (dispose v w) = pendingFrames w"
  "lastFrame (dispose v w) = lastFrame w"
  "resizeListening (dispose v w) = resizeListening w"
  "objects (dispose v w) = objects w"
  "trace (dispose v w) = trace w"
  by (simp_all add: dispose_def modify_renderer_def modify_controls_def Let_def
      split: option.split)

lemma fold_dispose_frame:
  "pendingFrames (fold dispose vs w) = pendingFrames w"
  "lastFrame (fold dispose vs w) = lastFrame w"
  "resizeListening (fold dispose vs w) = resizeListening w"
  "objects (fold dispose vs w) = objects w"
  "trace (fold dispose vs w) = trace w"
  "length (renderers (fold dispose vs w)) = length (renderers w)"
  "length (orbitControls (fold dispose vs w)) = length (orbitControls w)"
  by (induction vs arbitrary: w)
     (simp_all add: dispose_frame dispose_renderers dispose_controls split: option.split)

lemma dispose_keeps_released:
  assumes "i < length (renderers w)" "disposed (renderers w ! i)" "parentNode (renderers w ! i) = None"
  shows "disposed (renderers (dispose v w) ! i) \<and> parentNode (renderers (dispose v w) ! i) = None"
  using assms by (cases "renderer v = i") (simp_all add: dispose_renderers)

lemma dispose_keeps_controls:
  assumes "k < length (orbitControls w)" "controls_disposed (orbitControls w ! k)"
  shows "controls_disposed (orbitControls (dispose v w) ! k)"
proof (cases "controls v")
  case None
  then show ?thesis using assms by (simp add: dispose_controls)
next
  case (Some x)
  then show ?thesis using assms by (cases "x = k") (simp_all add: dispose_controls)
qed

lemma fold_dispose_keeps_released:
  assumes "i < length (renderers w)" "disposed (renderers w ! i)" "parentNode (renderers w ! i) = None"
  shows "disposed (renderers (fold dispose vs w) ! i) \<and>
         parentNode (renderers (fold dispose vs w) ! i) = None"
  using assms
proof (induction vs arbitrary: w)
  case Nil
  then show ?case by simp
next
  case (Cons v vs)
  have "i < length (renderers (dispose v w))"
    using Cons.prems(1) by (simp add: dispose_renderers)
  then show ?case
    using Cons.IH [of "dispose v w"] dispose_keeps_released [OF Cons.prems] by simp
qed

lemma fold_dispose_keeps_controls:
  assumes "k < length (orbitControls w)" "controls_disposed (orbitControls w ! k)"
  shows "controls_disposed (orbitControls (fold dispose vs w) ! k)"
  using assms
proof (induction vs arbitrary: w)
  case Nil
  then show ?case by simp
next
  case (Cons v vs)
  have "k < length (orbitControls (dispose v w))"
    using Cons.prems(1) by (simp add: dispose_controls split: option.split)
  then show ?case
    using Cons.IH [of "dispose v w"] dispose_keeps_controls [OF Cons.prems] by simp
qed

lemma fold_dispose_releases:
  assumes "v \<in> set vs" "renderer v < length (renderers w)"
  shows "disposed (renderers (fold dispose vs w) ! renderer v) \<and>
         parentNode (renderers (fold dispose vs w) ! renderer v) = None"
  using assms
proof (induction vs arbitrary: w)
  case Nil
  then show ?case by simp
next
  case (Cons x vs)
  have len: "renderer v < length (renderers (dispose x w))"
    using Cons.prems(2) by (simp add: dispose_renderers)
  show ?case
  proof (cases "v \<in> set vs")
    case True
    then show ?thesis using Cons.IH [of "dispose x w"] len by simp
  next
    case False
    then have "x = v" using Cons.prems(1) by simp
    then have "disposed (renderers (dispose x w) ! renderer v) \<and>
               parentNode (renderers (dispose x w) ! renderer v) = None"
      using Cons.prems(2) by (simp add: dispose_renderers)
    then show ?thesis
      using fold_dispose_keeps_released [of "renderer v" "dispose x w" vs] len by simp
  qed
qed

lemma fold_dispose_releases_controls:
  assumes "v \<in> set vs" "controls v = Some k" "k < length (orbitControls w)"
  shows "controls_disposed (orbitControls (fold dispose vs w) ! k)"
  using assms
proof (induction vs arbitrary: w)
  case Nil
  then show ?case by simp
next
  case (Cons x vs)
  have len: "k < length (orbitControls (dispose x w))"
    using Cons.prems(3) by (simp add: dispose_controls split: option.split)
  show ?case
  proof (cases "v \<in> set vs")
    case True
    then show ?thesis using Cons.IH [of "dispose x w"] Cons.prems(2) len by simp
  next
    case False
    then have "x = v" using Cons.prems(1) by simp
    then have "controls_disposed (orbitControls (dispose x w) ! k)"
      using Cons.prems(2,3) by (simp add: dispose_controls)
    then show ?thesis
      using fold_dispose_keeps_controls [of k "dispose x w" vs] len by simp
  qed
qed

lemma fold_dispose_renderers_cong:
  "renderers w1 = renderers w2 \<Longrightarrow>
   renderers (fold dispose vs w1) = renderers (fold dispose vs w2)"
  by (induction vs arbitrary: w1 w2) (simp_all add: dispose_renderers)

lemma fold_dispose_controls_cong:
  "orbitControls w1 = orbitControls w2 \<Longrightarrow>
   orbitControls (fold dispose vs w1) = orbitControls (fold dispose vs w2)"
  by (induction vs arbitrary: w1 w2) (simp_all add: dispose_controls split: option.split)

lemma ngOnDestroy_fields:
  "renderers (ngOnDestroy e c w) = renderers (fold dispose (viewers c) w)"
  "orbitControls (ngOnDestroy e c w) = orbitControls (fold dispose (viewers c) w)"
  "pendingFrames (ngOnDestroy e c w) =
     (if animateId c \<noteq> 0 then removeAll (animateId c) (pendingFrames w) else pendingFrames w)"
  "resizeListening (ngOnDestroy e c w) = (if window_defined e then False else resizeListening w)"
  "objects (ngOnDestroy e c w) = objects w"
proof -
  have r: "renderers (fold dispose vs (cancelAnimationFrame h w)) = renderers (fold dispose vs w)"
    for vs h
    by (rule fold_dispose_renderers_cong) (simp add: cancelAnimationFrame_def)
  have k: "orbitControls (fold dispose vs (cancelAnimationFrame h w)) =
           orbitControls (fold dispose vs w)" for vs h
    by (rule fold_dispose_controls_cong) (simp add: cancelAnimationFrame_def)
  show "renderers (ngOnDestroy e c w) = renderers (fold dispose (viewers c) w)"
    by (simp add: ngOnDestroy_def Let_def r)
  show "orbitControls (ngOnDestroy e c w) = orbitControls (fold dispose (viewers c) w)"
    by (simp add: ngOnDestroy_def Let_def k)
  show "pendingFrames (ngOnDestroy e c w) =
     (if animateId c \<noteq> 0 then removeAll (animateId c) (pendingFrames w) else pendingFrames w)"
    by (simp add: ngOnDestroy_def Let_def fold_dispose_frame cancelAnimationFrame_def)
  show "resizeListening (ngOnDestroy e c w) =
          (if window_defined e then False else resizeListening w)"
    by (simp add: ngOnDestroy_def Let_def fold_dispose_frame cancelAnimationFrame_def)
  show "objects (ngOnDestroy e c w) = objects w"
    by (simp add: ngOnDestroy_def Let_def fold_dispose_frame cancelAnimationFrame_def)
qed

subsubsection \<open>References of appended objects\<close>

lemma length_fresh_refs [simp]: "length (fresh_refs n xs) = length xs"
  by (induction n xs rule: fresh_refs.induct) simp_all

lemma fresh_refs_map_option:
  "fresh_refs n (map (\<lambda>c. map_option (h c) (k c)) cs) = fresh_refs n (map k cs)"
proof (induction cs arbitrary: n)
  case Nil
  show ?case by simp
next
  case (Cons c cs)
  then show ?case by (cases "k c") simp_all
qed

lemma map_filter_id_map: "List.map_filter (\<lambda>x. x) (map g xs) = List.map_filter g xs"
  by (induction xs) (simp_all add: List.map_filter_simps split: option.split)

lemma map_map_filter:
  "map f (List.map_filter g xs) = List.map_filter (\<lambda>x. map_option f (g x)) xs"
  by (induction xs) (simp_all add: List.map_filter_simps split: option.split)

lemma refers_append: "refers obs v x \<Longrightarrow> refers (obs @ ys) v x"
  by (auto simp add: refers_def nth_append split: option.splits)

lemma fresh_refs_refers:
  "i < length xs \<Longrightarrow>
   refers (pre @ List.map_filter (\<lambda>x. x) xs) (fresh_refs (length pre) xs ! i) (xs ! i)"
proof (induction xs arbitrary: pre i)
  case Nil
  then show ?case by simp
next
  case (Cons x xs)
  show ?case
  proof (cases x)
    case None
    show ?thesis
    proof (cases i)
      case 0
      then show ?thesis by (simp add: None refers_def)
    next
      case (Suc j)
      then have "j < length xs" using Cons.prems by simp
      then show ?thesis
        using Cons.IH [of j pre] by (simp add: None Suc List.map_filter_simps)
    qed
  next
    case (Some ob)
    show ?thesis
    proof (cases i)
      case 0
      then show ?thesis by (simp add: Some refers_def List.map_filter_simps)
    next
      case (Suc j)
      then have "j < length xs" using Cons.prems by simp
      then show ?thesis
        using Cons.IH [of j "pre @ [ob]"] by (simp add: Some Suc List.map_filter_simps)
    qed
  qed
qed

subsubsection \<open>The map of masters\<close>

text \<open>After the \<open>forEach\<close>, each unique path is mapped to what its load resolved with.\<close>

lemma upt_add_Suc: "[n ..< n + Suc k] = n # [Suc n ..< Suc n + k]"
  by (simp add: upt_conv_Cons del: upt_Suc)

lemma masterModels_other:
  "p \<notin> set ups \<Longrightarrow>
   fold (\<lambda>(path, index). Map_set path (item lm index)) (zip ups ns) m0 p = m0 p"
proof (induction ups arbitrary: ns m0)
  case Nil
  show ?case by simp
next
  case (Cons u us)
  let ?F = "\<lambda>(path, index). Map_set path (item lm index)"
  show ?case
  proof (cases ns)
    case Nil
    then show ?thesis by simp
  next
    case (Cons k ks)
    have "fold ?F (zip (u # us) ns) m0 p = fold ?F (zip us ks) (Map_set u (item lm k) m0) p"
      by (simp add: Cons)
    also have "\<dots> = Map_set u (item lm k) m0 p"
      using Cons.prems by (intro Cons.IH) simp
    also have "\<dots> = m0 p"
      using Cons.prems by (simp add: Map_set_def)
    finally show ?thesis .
  qed
qed

lemma masterModels_nth:
  "distinct ups \<Longrightarrow> i < length ups \<Longrightarrow> length ns = length ups \<Longrightarrow>
   fold (\<lambda>(path, index). Map_set path (item lm index)) (zip ups ns) m0 (ups ! i) =
     item lm (ns ! i)"
proof (induction ups arbitrary: ns m0 i)
  case Nil
  then show ?case by simp
next
  case (Cons u us)
  let ?F = "\<lambda>(path, index). Map_set path (item lm index)"
  obtain k ks where ns: "ns = k # ks" "length ks = length us"
    using Cons.prems(3) by (cases ns) simp_all
  have unfold: "fold ?F (zip (u # us) ns) m0 = fold ?F (zip us ks) (Map_set u (item lm k) m0)"
    by (simp add: ns)
  show ?case
  proof (cases i)
    case 0
    have "u \<notin> set us" using Cons.prems(1) by simp
    then have "fold ?F (zip us ks) (Map_set u (item lm k) m0) u = Map_set u (item lm k) m0 u"
      by (rule masterModels_other)
    also have "\<dots> = item lm k" by (simp add: Map_set_def)
    finally show ?thesis unfolding unfold by (simp add: 0 ns)
  next
    case (Suc j)
    then have "j < length us" using Cons.prems(2) by simp
    moreover have "distinct us" using Cons.prems(1) by simp
    ultimately have "fold ?F (zip us ks) (Map_set u (item lm k) m0) (us ! j) = item lm (ks ! j)"
      using ns by (intro Cons.IH) simp_all
    then show ?thesis unfolding unfold by (simp add: Suc ns)
  qed
qed

lemma masterModels_ok:
  assumes "p \<in> set ups" "distinct ups"
  shows "refers (pre @ List.map_filter R ups)
           (fold (\<lambda>(path, index). Map_set path
                    (item (fresh_refs (length pre) (map R ups)) index))
              (zip ups [0 ..< length ups]) (\<lambda>_. None) p)
           (R p)"
proof -
  obtain i where i: "i < length ups" "ups ! i = p"
    using assms(1) by (auto simp add: in_set_conv_nth)
  have "fold (\<lambda>(path, index). Map_set path
                (item (fresh_refs (length pre) (map R ups)) index))
          (zip ups [0 ..< length ups]) (\<lambda>_. None) (ups ! i) =
        item (fresh_refs (length pre) (map R ups)) ([0 ..< length ups] ! i)"
    using assms(2) i(1) by (intro masterModels_nth) simp_all
  also have "\<dots> = fresh_refs (length pre) (map R ups) ! i"
    using i(1) by (simp add: item_def)
  finally have mm: "fold (\<lambda>(path, index). Map_set path
                (item (fresh_refs (length pre) (map R ups)) index))
          (zip ups [0 ..< length ups]) (\<lambda>_. None) p =
        fresh_refs (length pre) (map R ups) ! i"
    by (simp add: i(2))
  have "refers (pre @ List.map_filter (\<lambda>x. x) (map R ups))
          (fresh_refs (length pre) (map R ups) ! i) (map R ups ! i)"
    using i(1) by (intro fresh_refs_refers) simp
  then show ?thesis
    using i by (simp add: mm map_filter_id_map)
qed

subsubsection \<open>Building the viewers\<close>

lemma new_ThreeViewer_ok:
  assumes "THREE_defined e"
  shows "\<exists>v w1. new_ThreeViewer e cfg (Some el) w = (Inr v, w1) \<and>
           config v = cfg \<and> model v = None \<and> container v = el \<and>
           renderer v = length (renderers w) \<and>
           (\<forall>k. controls v = Some k \<longrightarrow> k = length (orbitControls w) \<and> k < length (orbitControls w1)) \<and>
           length (renderers w1) = Suc (length (renderers w)) \<and>
           length (orbitControls w) \<le> length (orbitControls w1) \<and>
           objects w1 = objects w \<and> trace w1 = trace w \<and>
           pendingFrames w1 = pendingFrames w \<and> lastFrame w1 = lastFrame w \<and>
           resizeListening w1 = resizeListening w"
  using assms by (simp add: new_ThreeViewer_def Let_def)

text \<open>
  When \<open>THREE\<close> is defined, there is a container for every config, and the map holds
  for every path what \<open>L\<close> says (a live master, or \<open>undefined\<close>): the map over the
  configs returns one viewer per config, in order; the clones are appended to the
  store in that order, one for each config whose path has a master.
\<close>

lemma make_viewers_ok:
  assumes "THREE_defined e" "i + length cfgs \<le> length cs"
    and "\<forall>cfg \<in> set cfgs. refers (objects w) (mm (modelPath cfg)) (L (modelPath cfg))"
  shows "\<exists>vs w'. make_viewers e mm cs cfgs i w = (Inr vs, w') \<and>
           map config vs = cfgs \<and>
           map model vs = fresh_refs (length (objects w)) (map (\<lambda>cfg. L (modelPath cfg)) cfgs) \<and>
           objects w' =
             objects w @
             List.map_filter
               (\<lambda>cfg. map_option
                  (\<lambda>ob. (Object3D_copy ob)\<lparr>obj_scale := scale cfg, obj_position := pos cfg\<rparr>)
                  (L (modelPath cfg))) cfgs \<and>
           trace w' = trace w \<and> pendingFrames w' = pendingFrames w \<and>
           lastFrame w' = lastFrame w \<and> resizeListening w' = resizeListening w \<and>
           map renderer vs = [length (renderers w) ..< length (renderers w) + length cfgs] \<and>
           length (renderers w') = length (renderers w) + length cfgs \<and>
           length (orbitControls w) \<le> length (orbitControls w') \<and>
           (\<forall>v \<in> set vs. \<forall>k. controls v = Some k \<longrightarrow> k < length (orbitControls w'))"
  using assms
proof (induction cfgs arbitrary: i w)
  case Nil
  show ?case by (simp add: List.map_filter_simps)
next
  case (Cons cfg cfgs)
  let ?g = "\<lambda>cfg. map_option
              (\<lambda>ob. (Object3D_copy ob)\<lparr>obj_scale := scale cfg, obj_position := pos cfg\<rparr>)
              (L (modelPath cfg))"
  have i: "i < length cs" using Cons.prems(2) by simp
  obtain v w1 where v: "new_ThreeViewer e cfg (Some (cs ! i)) w = (Inr v, w1)"
    "config v = cfg" "model v = None" "objects w1 = objects w" "trace w1 = trace w"
    "pendingFrames w1 = pendingFrames w" "lastFrame w1 = lastFrame w"
    "resizeListening w1 = resizeListening w"
    "renderer v = length (renderers w)" "length (renderers w1) = Suc (length (renderers w))"
    "length (orbitControls w) \<le> length (orbitControls w1)"
    "\<forall>k. controls v = Some k \<longrightarrow> k < length (orbitControls w1)"
    using new_ThreeViewer_ok [OF Cons.prems(1), of cfg "cs ! i" w] by blast
  have master: "refers (objects w) (mm (modelPath cfg)) (L (modelPath cfg))"
    using Cons.prems(3) by simp
  define added where
    "added = (case mm (modelPath cfg) of
                Some m \<Rightarrow> addModel v (Some m) w1
              | None \<Rightarrow> (v, w1))"
  define v1 where "v1 = fst added"
  define w2 where "w2 = snd added"
  have v1: "config v1 = cfg" "renderer v1 = length (renderers w)" "controls v1 = controls v"
    by (simp_all add: v1_def added_def addModel_Some_eq v split: option.split)
  have w2: "trace w2 = trace w" "pendingFrames w2 = pendingFrames w"
    "lastFrame w2 = lastFrame w" "resizeListening w2 = resizeListening w"
    "renderers w2 = renderers w1" "orbitControls w2 = orbitControls w1"
    by (simp_all add: w2_def added_def addModel_Some_eq v split: option.split)
  have m1: "model v1 = (case L (modelPath cfg) of None \<Rightarrow> None
                        | Some ob \<Rightarrow> Some (length (objects w)))"
    using master
    by (auto simp add: v1_def added_def addModel_Some_eq v refers_def split: option.splits)
  have o2: "objects w2 = objects w @ (case ?g cfg of None \<Rightarrow> [] | Some cl \<Rightarrow> [cl])"
    using master
    by (auto simp add: w2_def added_def addModel_Some_eq v refers_def split: option.splits)
  have "\<forall>cfg' \<in> set cfgs. refers (objects w2) (mm (modelPath cfg')) (L (modelPath cfg'))"
    using Cons.prems(3) unfolding o2 by (simp add: refers_append)
  moreover have "Suc i + length cfgs \<le> length cs" using Cons.prems(2) by simp
  ultimately obtain vs w3 where rest:
    "make_viewers e mm cs cfgs (Suc i) w2 = (Inr vs, w3)" "map config vs = cfgs"
    "map model vs = fresh_refs (length (objects w2)) (map (\<lambda>cfg. L (modelPath cfg)) cfgs)"
    "objects w3 = objects w2 @ List.map_filter ?g cfgs"
    "trace w3 = trace w2" "pendingFrames w3 = pendingFrames w2" "lastFrame w3 = lastFrame w2"
    "resizeListening w3 = resizeListening w2"
    "map renderer vs = [length (renderers w2) ..< length (renderers w2) + length cfgs]"
    "length (renderers w3) = length (renderers w2) + length cfgs"
    "length (orbitControls w2) \<le> length (orbitControls w3)"
    "\<forall>v \<in> set vs. \<forall>k. controls v = Some k \<longrightarrow> k < length (orbitControls w3)"
    using Cons.IH [OF Cons.prems(1), of "Suc i" w2] by blast
  have pair: "(case mm (modelPath cfg) of
                 Some m \<Rightarrow> addModel v (Some m) w1
               | None \<Rightarrow> (v, w1)) = (v1, w2)"
    by (simp add: v1_def w2_def added_def)
  have step: "make_viewers e mm cs (cfg # cfgs) i w = (Inr (v1 # vs), w3)"
    by (simp add: at_def i v(1) pair rest(1) Let_def)
  have models: "map model (v1 # vs) =
      fresh_refs (length (objects w)) (map (\<lambda>cfg. L (modelPath cfg)) (cfg # cfgs))"
    by (cases "L (modelPath cfg)") (simp_all add: m1 rest(3) o2)
  have objs: "objects w3 = objects w @ List.map_filter ?g (cfg # cfgs)"
    by (cases "L (modelPath cfg)") (simp_all add: rest(4) o2 List.map_filter_simps)
  have handles: "map renderer (v1 # vs) =
      [length (renderers w) ..< length (renderers w) + length (cfg # cfgs)]"
    unfolding length_Cons upt_add_Suc by (simp add: v1 rest w2 v)
  have live: "\<forall>x \<in> set (v1 # vs). \<forall>k. controls x = Some k \<longrightarrow> k < length (orbitControls w3)"
    using rest(11,12) v(12) by (auto simp add: v1 w2)
  have sizes: "length (renderers w3) = length (renderers w) + length (cfg # cfgs)"
    "length (orbitControls w) \<le> length (orbitControls w3)"
    using rest(10,11) v(10,11) by (simp_all add: w2)
  have rest': "map config (v1 # vs) = cfg # cfgs"
    "trace w3 = trace w" "pendingFrames w3 = pendingFrames w" "lastFrame w3 = lastFrame w"
    "resizeListening w3 = resizeListening w"
    by (simp_all add: v1 rest w2)
  show ?case
  proof (intro exI conjI)
    show "make_viewers e mm cs (cfg # cfgs) i w = (Inr (v1 # vs), w3)" by (rule step)
    show "map config (v1 # vs) = cfg # cfgs" by (rule rest'(1))
    show "map model (v1 # vs) =
            fresh_refs (length (objects w)) (map (\<lambda>cfg. L (modelPath cfg)) (cfg # cfgs))"
      by (rule models)
    show "objects w3 = objects w @ List.map_filter ?g (cfg # cfgs)" by (rule objs)
    show "trace w3 = trace w" by (rule rest'(2))
    show "pendingFrames w3 = pendingFrames w" by (rule rest'(3))
    show "lastFrame w3 = lastFrame w" by (rule rest'(4))
    show "resizeListening w3 = resizeListening w" by (rule rest'(5))
    show "map renderer (v1 # vs) =
            [length (renderers w) ..< length (renderers w) + length (cfg # cfgs)]"
      by (rule handles)
    show "length (renderers w3) = length (renderers w) + length (cfg # cfgs)"
      by (rule sizes(1))
    show "length (orbitControls w) \<le> length (orbitControls w3)" by (rule sizes(2))
    show "\<forall>x \<in> set (v1 # vs). \<forall>k. controls x = Some k \<longrightarrow> k < length (orbitControls w3)"
      by (rule live)
  qed
qed

text \<open>The first frame turns every clone once and nothing else.\<close>

lemma fold_update_objects:
  "objects w = pre @ List.map_filter (\<lambda>x. x) xs \<Longrightarrow>
   map model vs = fresh_refs (length pre) xs \<Longrightarrow>
   objects (fold update vs w) = pre @ map rotate_y (List.map_filter (\<lambda>x. x) xs)"
proof (induction vs arbitrary: w pre xs)
  case Nil
  then have "xs = []" by (cases xs) (simp_all, metis fresh_refs.simps(2,3) list.distinct(1) option.exhaust)
  then show ?case using Nil by (simp add: List.map_filter_simps)
next
  case (Cons v vs)
  obtain x xs' where xs: "xs = x # xs'"
    using Cons.prems(2) by (cases xs) simp_all
  show ?case
  proof (cases x)
    case None
    have mv: "model v = None" and ms: "map model vs = fresh_refs (length pre) xs'"
      using Cons.prems(2) by (simp_all add: xs None)
    have o: "objects (update v w) = pre @ List.map_filter (\<lambda>x. x) xs'"
      by (simp add: update_objects mv Cons.prems(1) xs None List.map_filter_simps)
    show ?thesis
      using Cons.IH [OF o ms] by (simp add: xs None List.map_filter_simps)
  next
    case (Some ob)
    have mv: "model v = Some (length pre)"
      and ms: "map model vs = fresh_refs (length (pre @ [rotate_y ob])) xs'"
      using Cons.prems(2) by (simp_all add: xs Some)
    have o: "objects (update v w) = (pre @ [rotate_y ob]) @ List.map_filter (\<lambda>x. x) xs'"
      by (simp add: update_objects mv Cons.prems(1) xs Some List.map_filter_simps)
    show ?thesis
      using Cons.IH [OF o ms] by (simp add: xs Some List.map_filter_simps)
  qed
qed


subsubsection \<open>The ways \<open>ngAfterViewInit\<close> completes\<close>

lemma emit_fields [simp]:
  "objects (emit ev w) = objects w" "renderers (emit ev w) = renderers w"
  "orbitControls (emit ev w) = orbitControls w" "pendingFrames (emit ev w) = pendingFrames w"
  "lastFrame (emit ev w) = lastFrame w" "resizeListening (emit ev w) = resizeListening w"
  "trace (emit ev w) = trace w @ [ev]"
  by (simp_all add: emit_def)

lemma fold_update_requests:
  "requests (trace (fold update vs w)) = requests (trace w)"
  by (induction vs arbitrary: w) (simp_all add: update_trace split: option.split)

lemma throws_unique_paths:
  "list_ex (\<lambda>p. served e p = Throws) (Array_from_Set (map modelPath cfgs)) =
     (\<exists>cfg \<in> set cfgs. served e (modelPath cfg) = Throws)"
  by (auto simp add: list_ex_iff Array_from_Set_set)

lemma ngAfterViewInit_loaded:
  assumes "THREE_defined e \<and> GLTFLoader_defined e \<and> OrbitControls_defined e"
  shows "ngAfterViewInit e c w =
     Some (if list_ex (\<lambda>p. served e p = Throws)
                (Array_from_Set (map modelPath (allModelConfigs c))) then
             (c, emit (ConsoleError ''Initialization failed:'')
                   (snd (loadModels e (Array_from_Set (map modelPath (allModelConfigs c))) w)))
           else if length (allRendererContainers c) < length (allModelConfigs c) then
             (c, emit (ConsoleError (missing_containers c))
                   (snd (loadModels e (Array_from_Set (map modelPath (allModelConfigs c))) w)))
           else
             (case make_viewers e
                     (fold (\<lambda>(path, index). Map_set path
                              (item (fresh_refs (length (objects w))
                                       (map (resolved_object e)
                                          (Array_from_Set (map modelPath (allModelConfigs c)))))
                                 index))
                        (zip (Array_from_Set (map modelPath (allModelConfigs c)))
                           [0 ..< length (Array_from_Set (map modelPath (allModelConfigs c)))])
                        (\<lambda>_. None))
                     (allRendererContainers c) (allModelConfigs c) 0
                     (snd (loadModels e (Array_from_Set (map modelPath (allModelConfigs c))) w)) of
                (Inl err, w2) \<Rightarrow> (c, emit (ConsoleError ''Initialization failed:'') w2)
              | (Inr vs, w2) \<Rightarrow>
                  animate (c\<lparr>viewers := vs, isLoaded := True\<rparr>) (emit MarkForCheck w2)))"
  unfolding ngAfterViewInit_def check_resolves [OF assms] Let_def case_prod_unfold
    loadModels_all
  by (simp add: missing_containers_def)

lemma init_pending:
  "\<not> (THREE_defined e \<and> GLTFLoader_defined e \<and> OrbitControls_defined e) \<Longrightarrow>
   ngAfterViewInit e c w = None"
  by (simp add: ngAfterViewInit_def check_pending)

lemma init_rejected:
  assumes "THREE_defined e \<and> GLTFLoader_defined e \<and> OrbitControls_defined e"
    and "\<exists>cfg \<in> set (allModelConfigs c). served e (modelPath cfg) = Throws"
  shows "ngAfterViewInit e c w =
     Some (c, emit (ConsoleError ''Initialization failed:'')
               (snd (loadModels e (Array_from_Set (map modelPath (allModelConfigs c))) w)))"
  using assms(2) by (simp add: ngAfterViewInit_loaded [OF assms(1)] throws_unique_paths)

lemma init_abort:
  assumes "THREE_defined e \<and> GLTFLoader_defined e \<and> OrbitControls_defined e"
    and "\<forall>cfg \<in> set (allModelConfigs c). served e (modelPath cfg) \<noteq> Throws"
    and "length (allRendererContainers c) < length (allModelConfigs c)"
  shows "ngAfterViewInit e c w =
     Some (c, emit (ConsoleError (missing_containers c))
               (snd (loadModels e (Array_from_Set (map modelPath (allModelConfigs c))) w)))"
  using assms(2,3) by (simp add: ngAfterViewInit_loaded [OF assms(1)] throws_unique_paths)

text \<open>
  The run that sets \<open>isLoaded\<close>: no request threw and there is a container for every
  config. The store grows by the masters, one per distinct path that resolved with an
  object, and then by the clones, one per config whose path has a master; each viewer
  holds its clone, or nothing when its path has no master.
\<close>

lemma init_success:
  assumes "THREE_defined e \<and> GLTFLoader_defined e \<and> OrbitControls_defined e"
    and "\<forall>cfg \<in> set (allModelConfigs c). served e (modelPath cfg) \<noteq> Throws"
    and "length (allModelConfigs c) \<le> length (allRendererContainers c)"
  shows "\<exists>vs w'.
     ngAfterViewInit e c w =
       Some (c\<lparr>viewers := vs, isLoaded := True, animateId := lastFrame w + 1\<rparr>, w') \<and>
     map config vs = allModelConfigs c \<and>
     map model vs =
       fresh_refs
         (length (objects w) +
          length (List.map_filter (resolved_object e)
                    (Array_from_Set (map modelPath (allModelConfigs c)))))
         (map (viewer_clone e) (allModelConfigs c)) \<and>
     objects w' =
       objects w @
       List.map_filter (resolved_object e) (Array_from_Set (map modelPath (allModelConfigs c))) @
       List.map_filter (viewer_clone e) (allModelConfigs c) \<and>
     (\<forall>v \<in> set vs. refers (objects w') (model v) (viewer_clone e (config v))) \<and>
     requests (trace w') =
       requests (trace w) @ Array_from_Set (map modelPath (allModelConfigs c)) \<and>
     pendingFrames w' = pendingFrames w @ [lastFrame w + 1] \<and>
     map renderer vs =
       [length (renderers w) ..< length (renderers w) + length (allModelConfigs c)] \<and>
     length (renderers w') = length (renderers w) + length (allModelConfigs c) \<and>
     (\<forall>v \<in> set vs. \<forall>k. controls v = Some k \<longrightarrow> k < length (orbitControls w'))"
proof -
  let ?cfgs = "allModelConfigs c"
  let ?ups = "Array_from_Set (map modelPath ?cfgs)"
  let ?w1 = "snd (loadModels e ?ups w)"
  let ?pre = "objects w @ List.map_filter (resolved_object e) ?ups"
  let ?mm = "fold (\<lambda>(path, index). Map_set path
                     (item (fresh_refs (length (objects w)) (map (resolved_object e) ?ups))
                        index))
               (zip ?ups [0 ..< length ?ups]) (\<lambda>_. None)"
  let ?g = "\<lambda>cfg. map_option
              (\<lambda>ob. (Object3D_copy ob)\<lparr>obj_scale := scale cfg, obj_position := pos cfg\<rparr>)
              (resolved_object e (modelPath cfg))"
  have o1: "objects ?w1 = ?pre"
    by (rule loadModels_objects)
  have masters: "\<forall>cfg \<in> set ?cfgs.
      refers (objects ?w1) (?mm (modelPath cfg)) (resolved_object e (modelPath cfg))"
  proof
    fix cfg assume "cfg \<in> set ?cfgs"
    then have "modelPath cfg \<in> set ?ups" by (simp add: Array_from_Set_set)
    then show "refers (objects ?w1) (?mm (modelPath cfg)) (resolved_object e (modelPath cfg))"
      unfolding o1 by (intro masterModels_ok Array_from_Set_distinct)
  qed
  have enough: "0 + length ?cfgs \<le> length (allRendererContainers c)"
    using assms(3) by simp
  obtain vs w2 where mk:
    "make_viewers e ?mm (allRendererContainers c) ?cfgs 0 ?w1 = (Inr vs, w2)"
    "map config vs = ?cfgs"
    "map model vs =
       fresh_refs (length (objects ?w1)) (map (\<lambda>cfg. resolved_object e (modelPath cfg)) ?cfgs)"
    "objects w2 = objects ?w1 @ List.map_filter ?g ?cfgs"
    "trace w2 = trace ?w1" "pendingFrames w2 = pendingFrames ?w1"
    "lastFrame w2 = lastFrame ?w1" "resizeListening w2 = resizeListening ?w1"
    "map renderer vs = [length (renderers ?w1) ..< length (renderers ?w1) + length ?cfgs]"
    "length (renderers w2) = length (renderers ?w1) + length ?cfgs"
    "\<forall>v \<in> set vs. \<forall>k. controls v = Some k \<longrightarrow> k < length (orbitControls w2)"
    using make_viewers_ok [OF conjunct1 [OF assms(1)] enough masters] by blast
  define w' where
    "w' = fold update vs
            ((emit MarkForCheck w2)\<lparr>lastFrame := lastFrame w + 1,
               pendingFrames := pendingFrames w @ [lastFrame w + 1]\<rparr>)"
  have res: "ngAfterViewInit e c w =
               Some (c\<lparr>viewers := vs, isLoaded := True, animateId := lastFrame w + 1\<rparr>, w')"
    using assms(2,3)
    by (simp add: ngAfterViewInit_loaded [OF assms(1)] throws_unique_paths mk animate_eq
        loadModels_frame w'_def)
  have clone: "viewer_clone e cfg = map_option rotate_y (?g cfg)" for cfg
    by (simp add: viewer_clone_def option.map_comp comp_def)
  have o2: "objects ((emit MarkForCheck w2)\<lparr>lastFrame := lastFrame w + 1,
               pendingFrames := pendingFrames w @ [lastFrame w + 1]\<rparr>) =
            ?pre @ List.map_filter (\<lambda>x. x) (map ?g ?cfgs)"
    by (simp add: mk(4) o1 map_filter_id_map)
  have m2: "map model vs = fresh_refs (length ?pre) (map ?g ?cfgs)"
    using mk(3) by (simp add: o1 fresh_refs_map_option)
  have "objects w' = ?pre @ map rotate_y (List.map_filter (\<lambda>x. x) (map ?g ?cfgs))"
    unfolding w'_def by (rule fold_update_objects [OF o2 m2])
  moreover have cf: "(\<lambda>cfg. map_option rotate_y (?g cfg)) = viewer_clone e"
    by (rule ext) (simp add: clone)
  ultimately have obj: "objects w' = ?pre @ List.map_filter (viewer_clone e) ?cfgs"
    by (simp add: map_filter_id_map map_map_filter)
  have m3: "map model vs = fresh_refs (length ?pre) (map (viewer_clone e) ?cfgs)"
  proof -
    have "fresh_refs (length ?pre) (map (viewer_clone e) ?cfgs) =
          fresh_refs (length ?pre) (map ?g ?cfgs)"
      using fresh_refs_map_option [of "length ?pre" "\<lambda>_. rotate_y" ?g ?cfgs]
      by (simp add: cf)
    then show ?thesis using m2 by simp
  qed
  have lv: "length vs = length ?cfgs"
    using mk(2) by (metis length_map)
  have each: "\<forall>v \<in> set vs. refers (objects w') (model v) (viewer_clone e (config v))"
  proof
    fix v assume "v \<in> set vs"
    then obtain i where i: "i < length vs" "vs ! i = v"
      by (auto simp add: in_set_conv_nth)
    have "refers (?pre @ List.map_filter (\<lambda>x. x) (map (viewer_clone e) ?cfgs))
            (fresh_refs (length ?pre) (map (viewer_clone e) ?cfgs) ! i)
            (map (viewer_clone e) ?cfgs ! i)"
      using i(1) lv by (intro fresh_refs_refers) simp
    moreover have "fresh_refs (length ?pre) (map (viewer_clone e) ?cfgs) ! i = model v"
      using i by (metis m3 nth_map)
    moreover have "?cfgs ! i = config v"
      using i by (metis mk(2) nth_map)
    ultimately show "refers (objects w') (model v) (viewer_clone e (config v))"
      using i(1) lv by (simp add: obj map_filter_id_map)
  qed
  have req: "requests (trace w') = requests (trace w) @ ?ups"
    by (simp add: w'_def fold_update_requests mk(5) loadModels_requests)
  have pend: "pendingFrames w' = pendingFrames w @ [lastFrame w + 1]"
    by (simp add: w'_def fold_update_frame)
  have m4: "map model vs =
      fresh_refs (length (objects w) + length (List.map_filter (resolved_object e) ?ups))
        (map (viewer_clone e) ?cfgs)"
    using m3 by simp
  have obj': "objects w' =
      objects w @ List.map_filter (resolved_object e) ?ups @
      List.map_filter (viewer_clone e) ?cfgs"
    using obj by simp
  have handles: "map renderer vs =
      [length (renderers w) ..< length (renderers w) + length ?cfgs]"
    "length (renderers w') = length (renderers w) + length ?cfgs"
    "\<forall>v \<in> set vs. \<forall>k. controls v = Some k \<longrightarrow> k < length (orbitControls w')"
    using mk(9,10,11) by (simp_all add: w'_def fold_update_frame loadModels_frame)
  show ?thesis
    using res mk(2) m4 obj' each req pend handles by blast
qed

text \<open>
  So after a completed initialisation the viewers' renderers and controls are objects
  of the world, the renderers being exactly the ones it created; a teardown then
  leaves every one of these disposed, and the frame it requested is no longer pending.
\<close>

lemma init_viewers_live:
  assumes "THREE_defined e \<and> GLTFLoader_defined e \<and> OrbitControls_defined e"
    and "\<forall>cfg \<in> set (allModelConfigs c). served e (modelPath cfg) \<noteq> Throws"
    and "length (allModelConfigs c) \<le> length (allRendererContainers c)"
    and "ngAfterViewInit e c w = Some (c', w')"
  shows "\<forall>v \<in> set (viewers c').
           renderer v < length (renderers w') \<and>
           (\<forall>k. controls v = Some k \<longrightarrow> k < length (orbitControls w'))"
    and "renderer ` set (viewers c') = {length (renderers w) ..< length (renderers w')}"
    and "animateId c' = lastFrame w + 1"
proof -
  obtain vs w'' where ok:
    "ngAfterViewInit e c w =
       Some (c\<lparr>viewers := vs, isLoaded := True, animateId := lastFrame w + 1\<rparr>, w'')"
    "map renderer vs =
       [length (renderers w) ..< length (renderers w) + length (allModelConfigs c)]"
    "length (renderers w'') = length (renderers w) + length (allModelConfigs c)"
    "\<forall>v \<in> set vs. \<forall>k. controls v = Some k \<longrightarrow> k < length (orbitControls w'')"
    using init_success [OF assms(1,2,3), of w] by blast
  have eq: "c' = c\<lparr>viewers := vs, isLoaded := True, animateId := lastFrame w + 1\<rparr>" "w' = w''"
    using ok(1) assms(4) by simp_all
  have img: "renderer ` set vs = {length (renderers w) ..< length (renderers w')}"
  proof -
    have "renderer ` set vs = set (map renderer vs)" by simp
    also have "\<dots> = {length (renderers w) ..< length (renderers w')}"
      unfolding ok(2) by (simp add: eq ok(3))
    finally show ?thesis .
  qed
  show "renderer ` set (viewers c') = {length (renderers w) ..< length (renderers w')}"
    using img by (simp add: eq)
  show "animateId c' = lastFrame w + 1" by (simp add: eq)
  show "\<forall>v \<in> set (viewers c').
           renderer v < length (renderers w') \<and>
           (\<forall>k. controls v = Some k \<longrightarrow> k < length (orbitControls w'))"
  proof
    fix v assume v: "v \<in> set (viewers c')"
    then have "v \<in> set vs" by (simp add: eq)
    then have "renderer v \<in> {length (renderers w) ..< length (renderers w')}"
      using img by blast
    then show "renderer v < length (renderers w') \<and>
               (\<forall>k. controls v = Some k \<longrightarrow> k < length (orbitControls w'))"
      using ok(4) \<open>v \<in> set vs\<close> by (simp add: eq)
  qed
qed

lemma destroy_after_init:
  assumes "THREE_defined e \<and> GLTFLoader_defined e \<and> OrbitControls_defined e"
    and "\<forall>cfg \<in> set (allModelConfigs c). served e (modelPath cfg) \<noteq> Throws"
    and "length (allModelConfigs c) \<le> length (allRendererContainers c)"
    and "ngAfterViewInit e c w = Some (c', w')"
    and "length (renderers w) \<le> i" and "i < length (renderers w')"
  shows "disposed (renderers (ngOnDestroy e' c' w') ! i) \<and>
         parentNode (renderers (ngOnDestroy e' c' w') ! i) = None \<and>
         animateId c' \<notin> set (pendingFrames (ngOnDestroy e' c' w'))"
proof -
  have "i \<in> renderer ` set (viewers c')"
    using init_viewers_live(2) [OF assms(1,2,3,4)] assms(5,6) by simp
  then obtain v where v: "v \<in> set (viewers c')" "renderer v = i" by auto
  have "disposed (renderers (fold dispose (viewers c') w') ! renderer v) \<and>
        parentNode (renderers (fold dispose (viewers c') w') ! renderer v) = None"
    using v assms(6) by (intro fold_dispose_releases) simp_all
  then show ?thesis
    using v(2) init_viewers_live(3) [OF assms(1,2,3,4)] by (simp add: ngOnDestroy_fields)
qed

subsubsection \<open>The initial configuration\<close>

lemma initial_paths:
  "Array_from_Set (map modelPath initial_allModelConfigs) =
     [GLB_MODEL_PATH_G, GLB_MODEL_PATH_EDGE, GLB_MODEL_PATH_OPER]"
  by (simp add: initial_allModelConfigs_def Array_from_def Array_from_Set_def Set_add_def
      upt_rec GLB_MODEL_PATH_G_def GLB_MODEL_PATH_EDGE_def GLB_MODEL_PATH_OPER_def)

lemma initial_length: "length initial_allModelConfigs = 16"
  by (simp add: initial_allModelConfigs_def Array_from_def)

subsubsection \<open>The small page\<close>

lemma example_world_built:
  "new_ThreeViewer example_env example_config (Some (example_container 0))
     (snd (loadModel example_env GLB_MODEL_PATH_G (afterNextRender_callback example_env new_page)))
   = (Inr example_viewer, example_world)"
  by (simp add: new_ThreeViewer_def loadModel_eq afterNextRender_callback_def example_env_def
      new_page_def example_world_def example_viewer_def example_container_def Let_def
      resolved_object_def)

lemma example_init:
  "ngAfterViewInit example_env example_single_page
     (afterNextRender_callback example_env new_page)
   = Some example_running"
proof -
  define p0 where "p0 = afterNextRender_callback example_env new_page"
  have libs: "THREE_defined example_env \<and> GLTFLoader_defined example_env \<and>
              OrbitControls_defined example_env"
    by (simp add: example_env_def)
  have paths: "Array_from_Set [modelPath example_config] = [GLB_MODEL_PATH_G]"
    by (simp add: Array_from_Set_def Set_add_def example_config_def)
  have answers: "served example_env GLB_MODEL_PATH_G \<noteq> Throws"
    "resolved_object example_env GLB_MODEL_PATH_G = Some (new_Object3D (Gltf ''googlelogo''))"
    by (simp_all add: example_env_def resolved_object_def)
  have empty: "objects p0 = []"
    by (simp add: p0_def afterNextRender_callback_def new_page_def)
  have master: "Map_set GLB_MODEL_PATH_G (Some 0) (\<lambda>_. None) (modelPath example_config) = Some 0"
    by (simp add: Map_set_def example_config_def)
  have built: "new_ThreeViewer example_env example_config (Some (example_container 0))
                 (snd (loadModel example_env GLB_MODEL_PATH_G p0)) =
               (Inr example_viewer, example_world)"
    unfolding p0_def by (rule example_world_built)
  have "ngAfterViewInit example_env example_single_page p0 = Some example_running"
    unfolding ngAfterViewInit_loaded [OF libs]
    by (simp add: example_single_page_def paths answers empty at_def item_def master built
        case_prod_unfold Let_def example_running_def example_component_def
        example_loaded_viewer_def example_loaded_world_def)
  then show ?thesis by (simp add: p0_def)
qed

text \<open>The same component where the file has no scene: a viewer, and no model.\<close>

lemma sceneless_init:
  "\<exists>vs w'.
     ngAfterViewInit sceneless_env example_single_page new_page =
       Some (example_single_page\<lparr>viewers := vs, isLoaded := True, animateId := 1\<rparr>, w') \<and>
     map model vs = [None] \<and> objects w' = [] \<and>
     requests (trace w') = [GLB_MODEL_PATH_G]"
proof -
  have libs: "THREE_defined sceneless_env \<and> GLTFLoader_defined sceneless_env \<and>
              OrbitControls_defined sceneless_env"
    by (simp add: sceneless_env_def)
  have cfgs: "allModelConfigs example_single_page = [example_config]"
    "allRendererContainers example_single_page = [example_container 0]"
    by (simp_all add: example_single_page_def)
  have path: "modelPath example_config = GLB_MODEL_PATH_G"
    by (simp add: example_config_def)
  have answer: "served sceneless_env GLB_MODEL_PATH_G = OnLoad None"
    by (simp add: sceneless_env_def GLB_MODEL_PATH_G_def)
  have none: "resolved_object sceneless_env GLB_MODEL_PATH_G = None"
    "viewer_clone sceneless_env example_config = None"
    by (simp_all add: resolved_object_def viewer_clone_def answer path)
  have paths: "Array_from_Set [GLB_MODEL_PATH_G] = [GLB_MODEL_PATH_G]"
    by (simp add: Array_from_Set_def Set_add_def)
  have nothrow: "\<forall>cfg \<in> set (allModelConfigs example_single_page).
                   served sceneless_env (modelPath cfg) \<noteq> Throws"
    by (simp add: cfgs path answer)
  have enough: "length (allModelConfigs example_single_page) \<le>
                length (allRendererContainers example_single_page)"
    by (simp add: cfgs)
  obtain vs w' where r:
    "ngAfterViewInit sceneless_env example_single_page new_page =
       Some (example_single_page
               \<lparr>viewers := vs, isLoaded := True, animateId := lastFrame new_page + 1\<rparr>, w')"
    "map model vs =
       fresh_refs
         (length (objects new_page) +
          length (List.map_filter (resolved_object sceneless_env)
                    (Array_from_Set (map modelPath (allModelConfigs example_single_page)))))
         (map (viewer_clone sceneless_env) (allModelConfigs example_single_page))"
    "objects w' =
       objects new_page @
       List.map_filter (resolved_object sceneless_env)
         (Array_from_Set (map modelPath (allModelConfigs example_single_page))) @
       List.map_filter (viewer_clone sceneless_env) (allModelConfigs example_single_page)"
    "requests (trace w') =
       requests (trace new_page) @
       Array_from_Set (map modelPath (allModelConfigs example_single_page))"
    using init_success [OF libs nothrow enough, of new_page] by blast
  have "map model vs = [None]"
    using r(2) by (simp add: cfgs path none paths List.map_filter_simps)
  moreover have "objects w' = []"
    using r(3) by (simp add: cfgs path none paths List.map_filter_simps new_page_def)
  moreover have "requests (trace w') = [GLB_MODEL_PATH_G]"
    using r(4) by (simp add: cfgs path paths new_page_def)
  moreover have "lastFrame new_page + 1 = 1"
    by (simp add: new_page_def)
  ultimately show ?thesis
    using r(1) by auto
qed

subsubsection \<open>Models and loads\<close>

lemma refers_None: "refers obs v x \<Longrightarrow> (v = None) = (x = None)"
  by (cases x; cases v) (simp_all add: refers_def)

lemma viewer_clone_None: "(viewer_clone e cfg = None) = (resolved_object e (modelPath cfg) = None)"
  by (simp add: viewer_clone_def)

lemma length_map_filter_all:
  "\<forall>x \<in> set xs. f x \<noteq> None \<Longrightarrow> length (List.map_filter f xs) = length xs"
  by (induction xs) (auto simp add: List.map_filter_simps)

lemma example_env_resolves: "resolved_object example_env p \<noteq> None"
  by (simp add: resolved_object_def example_env_def)

lemma example_env_no_throw: "served example_env p \<noteq> Throws"
  by (simp add: example_env_def)

subsection \<open>The viewer\<close>

text \<open>
  Claim C8. \<open>addModel\<close> with a \<open>null\<close> or \<open>undefined\<close> argument does nothing: the
  viewer (its \<open>model\<close> field and its scene among the rest) and the world come back as
  they were.
\<close>

theorem addModel_null:
  "addModel v None w = (v, w) \<and>
   model (fst (addModel v None w)) = model v \<and>
   scene (fst (addModel v None w)) = scene v"
  by (simp add: addModel_def)

text \<open>
  Claim C3. \<open>addModel\<close> with a loaded model \<open>m\<close> (a live reference): the viewer's
  \<open>model\<close> is a new object \<open>r\<close>, different from \<open>m\<close>, added last to the viewer's scene;
  \<open>r\<close> has the content of \<open>m\<close> and the scale and position of the viewer's config; the
  master \<open>m\<close> and every other object that existed are unchanged, so the same master
  can go to the next viewer.
\<close>

theorem addModel_clones:
  assumes "m < length (objects w)" and "addModel v (Some m) w = (v', w')"
  shows "\<exists>r. model v' = Some r \<and> r \<noteq> m \<and> r = length (objects w) \<and>
           children (scene v') = children (scene v) @ [Object r] \<and>
           length (objects w') = length (objects w) + 1 \<and>
           obj_scale (objects w' ! r) = scale (config v) \<and>
           obj_position (objects w' ! r) = pos (config v) \<and>
           content (objects w' ! r) = content (objects w ! m) \<and>
           objects w' ! m = objects w ! m \<and>
           (\<forall>a < length (objects w). objects w' ! a = objects w ! a)"
  using assms by (auto simp add: addModel_Some_eq Object3D_copy_def nth_append)

theorem addModel_clones_witness:
  "model (fst (addModel example_viewer (Some 0) example_world)) = Some 1 \<and>
   obj_scale (objects (snd (addModel example_viewer (Some 0) example_world)) ! 1) =
     (Lit 2 0, Lit 2 0, Lit 2 0) \<and>
   objects (snd (addModel example_viewer (Some 0) example_world)) ! 0 =
     new_Object3D (Gltf ''googlelogo'')"
  using addModel_clones [of 0 example_world example_viewer
      "fst (addModel example_viewer (Some 0) example_world)"
      "snd (addModel example_viewer (Some 0) example_world)"]
  by (simp add: example_world_def example_viewer_def example_config_def)

text \<open>
  Claim C5. One call of \<open>update\<close> on a viewer with a model \<open>r\<close> replaces the model's
  \<open>rotation.y\<close> by the sum of its old value and the literal 0.007 (the \<open>+=\<close> of the
  source, in double arithmetic), and leaves the other two rotation components, the
  position, the scale and the content of the model, and every other object, as they
  were. With no model, no object changes.
\<close>

theorem update_rotation:
  "(model v = None \<longrightarrow> objects (update v w) = objects w) \<and>
   (\<forall>r. model v = Some r \<and> r < length (objects w) \<longrightarrow>
      obj_rotation (objects (update v w) ! r) =
        (fst (obj_rotation (objects w ! r)),
         Plus (fst (snd (obj_rotation (objects w ! r)))) (Lit 7 3),
         snd (snd (obj_rotation (objects w ! r)))) \<and>
      obj_position (objects (update v w) ! r) = obj_position (objects w ! r) \<and>
      obj_scale (objects (update v w) ! r) = obj_scale (objects w ! r) \<and>
      content (objects (update v w) ! r) = content (objects w ! r) \<and>
      length (objects (update v w)) = length (objects w) \<and>
      (\<forall>a. a \<noteq> r \<longrightarrow> objects (update v w) ! a = objects w ! a))"
  by (auto simp add: update_objects rotate_y_def split: prod.split)

theorem update_rotation_witness:
  "obj_rotation (objects (update example_loaded_viewer example_loaded_world) ! 1) =
     (EulerAngle AxisX (Lit 0 0) (Lit 0 0) (Lit 0 0),
      Plus (EulerAngle AxisY (Lit 0 0) (Lit 0 0) (Lit 0 0)) (Lit 7 3),
      EulerAngle AxisZ (Lit 0 0) (Lit 0 0) (Lit 0 0)) \<and>
   obj_scale (objects (update example_loaded_viewer example_loaded_world) ! 1) =
     (Lit 2 0, Lit 2 0, Lit 2 0) \<and>
   objects (update example_loaded_viewer example_loaded_world) ! 0 =
     new_Object3D (Gltf ''googlelogo'') \<and>
   objects (update example_viewer example_world) = objects example_world"
  using update_rotation [of example_loaded_viewer example_loaded_world]
    update_rotation [of example_viewer example_world]
  by (simp add: example_loaded_viewer_def example_loaded_world_def addModel_Some_eq
      example_world_def example_viewer_def example_config_def new_Object3D_def
      Object3D_copy_def setFromQuaternion_def)

subsection \<open>The animation loop and teardown\<close>

text \<open>
  Claim C4. One run of \<open>animate\<close> requests exactly one next frame (the handle is kept
  in \<open>animateId\<close>), whatever the number of viewers, and calls \<open>update\<close> once on every
  viewer in array order: the trace grows by each viewer's controls update (when it
  has controls) and render call, viewer after viewer.
\<close>

theorem animate_ticks_every_viewer:
  assumes "animate c w = (c', w')"
  shows "trace w' =
           trace w @
           concat (map (\<lambda>v. (case controls v of Some k \<Rightarrow> [ControlsUpdate k] | None \<Rightarrow> []) @
                               [Render (renderer v)]) (viewers c)) \<and>
         renders (trace w') = renders (trace w) @ map renderer (viewers c) \<and>
         pendingFrames w' = pendingFrames w @ [animateId c'] \<and>
         animateId c' = lastFrame w + 1 \<and>
         lastFrame w' = lastFrame w + 1 \<and>
         viewers c' = viewers c"
proof -
  have w': "w' = fold update (viewers c)
                   (w\<lparr>lastFrame := lastFrame w + 1,
                      pendingFrames := pendingFrames w @ [lastFrame w + 1]\<rparr>)"
    and c': "c' = c\<lparr>animateId := lastFrame w + 1\<rparr>"
    using assms by (simp_all add: animate_eq)
  have "trace w' =
          trace w @
          concat (map (\<lambda>v. (case controls v of Some k \<Rightarrow> [ControlsUpdate k] | None \<Rightarrow> []) @
                              [Render (renderer v)]) (viewers c))"
    by (simp add: w' fold_update_trace)
  moreover have "renders (trace w') = renders (trace w) @ map renderer (viewers c)"
    by (simp add: w' fold_update_renders)
  moreover have "pendingFrames w' = pendingFrames w @ [animateId c']"
    by (simp add: w' c' fold_update_frame)
  moreover have "lastFrame w' = lastFrame w + 1"
    by (simp add: w' fold_update_frame)
  ultimately show ?thesis by (simp add: c')
qed

theorem animate_ticks_every_viewer_witness:
  "renders (trace (snd (animate example_component example_loaded_world))) = [0] \<and>
   pendingFrames (snd (animate example_component example_loaded_world)) = [1] \<and>
   animateId (fst (animate example_component example_loaded_world)) = 1"
  using animate_ticks_every_viewer [of example_component example_loaded_world
      "fst (animate example_component example_loaded_world)"
      "snd (animate example_component example_loaded_world)"]
  by (simp add: example_component_def example_loaded_viewer_def example_loaded_world_def
      addModel_Some_eq example_world_def example_viewer_def renders_def)

text \<open>
  Claim C6. \<open>ngOnDestroy\<close>, for viewers whose renderer and controls are objects of
  this world (as they are after \<open>ngAfterViewInit\<close>, lemma \<open>init_viewers_live\<close>): every
  viewer's renderer is disposed and its canvas removed from the DOM, every viewer's
  controls (when it has them) are disposed, the frame named by a non-zero
  \<open>animateId\<close> is no longer pending, and with a \<open>window\<close> the resize listener is gone.
  When the viewers hold all the renderers there are, none is left undisposed.
\<close>

theorem ngOnDestroy_releases:
  assumes "\<forall>v \<in> set (viewers c).
             renderer v < length (renderers w) \<and>
             (\<forall>k. controls v = Some k \<longrightarrow> k < length (orbitControls w))"
  shows "(\<forall>v \<in> set (viewers c).
            disposed (renderers (ngOnDestroy e c w) ! renderer v) \<and>
            parentNode (renderers (ngOnDestroy e c w) ! renderer v) = None \<and>
            (\<forall>k. controls v = Some k \<longrightarrow>
                 controls_disposed (orbitControls (ngOnDestroy e c w) ! k))) \<and>
         (animateId c \<noteq> 0 \<longrightarrow> animateId c \<notin> set (pendingFrames (ngOnDestroy e c w))) \<and>
         (window_defined e \<longrightarrow> \<not> resizeListening (ngOnDestroy e c w)) \<and>
         (renderer ` set (viewers c) = {..< length (renderers w)} \<longrightarrow>
            list_all disposed (renderers (ngOnDestroy e c w)))"
proof -
  have each: "disposed (renderers (ngOnDestroy e c w) ! renderer v) \<and>
              parentNode (renderers (ngOnDestroy e c w) ! renderer v) = None \<and>
              (\<forall>k. controls v = Some k \<longrightarrow>
                   controls_disposed (orbitControls (ngOnDestroy e c w) ! k))"
    if v: "v \<in> set (viewers c)" for v
  proof -
    have "renderer v < length (renderers w)" using assms v by blast
    then have a: "disposed (renderers (fold dispose (viewers c) w) ! renderer v) \<and>
                  parentNode (renderers (fold dispose (viewers c) w) ! renderer v) = None"
      using fold_dispose_releases [OF v] by blast
    have b: "controls_disposed (orbitControls (fold dispose (viewers c) w) ! k)"
      if "controls v = Some k" for k
      using fold_dispose_releases_controls [OF v that] assms v that by blast
    show ?thesis using a b by (simp add: ngOnDestroy_fields)
  qed
  have all: "list_all disposed (renderers (ngOnDestroy e c w))"
    if cover: "renderer ` set (viewers c) = {..< length (renderers w)}"
  proof -
    have "disposed (renderers (ngOnDestroy e c w) ! i)"
      if "i < length (renderers (ngOnDestroy e c w))" for i
    proof -
      have "i \<in> renderer ` set (viewers c)"
        using that cover by (simp add: ngOnDestroy_fields fold_dispose_frame)
      then obtain v where "v \<in> set (viewers c)" "renderer v = i" by auto
      then show ?thesis using each by blast
    qed
    then show ?thesis by (simp add: list_all_length)
  qed
  show ?thesis
    using each all by (simp add: ngOnDestroy_fields)
qed

theorem ngOnDestroy_releases_witness:
  "list_all disposed
     (renderers (ngOnDestroy example_env (fst example_running) (snd example_running))) \<and>
   list_all controls_disposed
     (orbitControls (ngOnDestroy example_env (fst example_running) (snd example_running))) \<and>
   pendingFrames (ngOnDestroy example_env (fst example_running) (snd example_running)) = [] \<and>
   \<not> resizeListening (ngOnDestroy example_env (fst example_running) (snd example_running))"
  using ngOnDestroy_releases [of "fst example_running" "snd example_running" example_env]
  by (simp add: example_running_def animate_eq update_frame ngOnDestroy_fields
      dispose_renderers dispose_controls example_component_def example_loaded_viewer_def
      example_loaded_world_def addModel_Some_eq example_world_def example_viewer_def
      example_env_def)

subsection \<open>Loading\<close>

text \<open>
  Claim C2. The promise of \<open>loadModel\<close> settles in one of three ways, and the loader is
  asked once (no retry). When the loader succeeds, it resolves with \<open>gltf.scene\<close>: the
  loaded scene, a new object of the world, or \<open>undefined\<close> for a file without a scene.
  When the loader fails, it resolves with a new 1 x 1 x 1 placeholder box. When
  \<open>loader.load\<close> itself throws, it rejects, and in no other case. The same holds for
  \<open>loadMasterModel\<close> of the single-model component, with its fixed path and a
  20 x 20 x 20 box.
\<close>

theorem loadModel_settles:
  "fst (loadModel e p w) =
     (case served e p of
        Throws \<Rightarrow> Rejected TypeError
      | OnLoad gltf_scene \<Rightarrow> Resolved (map_option (\<lambda>_. length (objects w)) gltf_scene)
      | OnError \<Rightarrow> Resolved (Some (length (objects w)))) \<and>
   objects (snd (loadModel e p w)) =
     objects w @
       (case served e p of
          Throws \<Rightarrow> []
        | OnLoad gltf_scene \<Rightarrow> (case gltf_scene of None \<Rightarrow> [] | Some ob \<Rightarrow> [ob])
        | OnError \<Rightarrow>
            [new_Object3D (Mesh (BoxGeometry (Lit 1 0) (Lit 1 0) (Lit 1 0)) MeshNormalMaterial)]) \<and>
   requests (trace (snd (loadModel e p w))) = requests (trace w) @ [p] \<and>
   (\<exists>err. fst (loadModel e p w) = Rejected err) = (served e p = Throws) \<and>
   fst (loadMasterModel e w) =
     (case served e GLB_MODEL_PATH of
        Throws \<Rightarrow> Rejected TypeError
      | OnLoad gltf_scene \<Rightarrow> Resolved (map_option (\<lambda>_. length (objects w)) gltf_scene)
      | OnError \<Rightarrow> Resolved (Some (length (objects w)))) \<and>
   objects (snd (loadMasterModel e w)) =
     objects w @
       (case served e GLB_MODEL_PATH of
          Throws \<Rightarrow> []
        | OnLoad gltf_scene \<Rightarrow> (case gltf_scene of None \<Rightarrow> [] | Some ob \<Rightarrow> [ob])
        | OnError \<Rightarrow>
            [new_Object3D
               (Mesh (BoxGeometry (Lit 20 0) (Lit 20 0) (Lit 20 0)) MeshNormalMaterial)]) \<and>
   requests (trace (snd (loadMasterModel e w))) = requests (trace w) @ [GLB_MODEL_PATH] \<and>
   (\<exists>err. fst (loadMasterModel e w) = Rejected err) = (served e GLB_MODEL_PATH = Throws)"
  by (simp add: loadModel_def loadMasterModel_def emit_def alloc_def Let_def requests_def
      split: gltf_result.split option.split)

text \<open>
  So the promise can reject, and can resolve with no object: where \<open>loader.load\<close> throws
  on the path \<open>http://\<close> the promise is rejected, no box is made, and where the file has
  no scene the promise resolves with \<open>undefined\<close>.
\<close>

theorem loadModel_rejects:
  "fst (loadModel sceneless_env ''http://'' new_page) = Rejected TypeError \<and>
   objects (snd (loadModel sceneless_env ''http://'' new_page)) = [] \<and>
   fst (loadModel sceneless_env GLB_MODEL_PATH_G new_page) = Resolved None"
  by (simp add: loadModel_def sceneless_env_def new_page_def emit_def GLB_MODEL_PATH_G_def)

subsection \<open>Initialisation\<close>

text \<open>
  Claim C1. When the library check resolves, \<open>ngAfterViewInit\<close> completes, and the
  loader was asked for exactly the distinct model paths of \<open>allModelConfigs\<close>, each
  once, in order of first occurrence: one request per path, not per viewer. A new
  component has three distinct paths. When no request throws and there is a
  container for every config, the objects created are one master per distinct path
  whose load resolved with an object (the loaded scene or the placeholder box),
  followed by one clone per config whose path has such a master. A viewer whose path
  has a master holds its own clone of it: a new object, the copy of the master with
  the config's scale and position, turned once by the first frame. A viewer whose
  path resolved with \<open>undefined\<close> (a file without a scene) holds no model.
\<close>

theorem init_loads_each_path_once:
  assumes "THREE_defined e \<and> GLTFLoader_defined e \<and> OrbitControls_defined e"
  shows "\<exists>c' w'.
     ngAfterViewInit e c w = Some (c', w') \<and>
     requests (trace w') =
       requests (trace w) @ Array_from_Set (map modelPath (allModelConfigs c)) \<and>
     distinct (Array_from_Set (map modelPath (allModelConfigs c))) \<and>
     set (Array_from_Set (map modelPath (allModelConfigs c))) =
       modelPath ` set (allModelConfigs c) \<and>
     ((\<forall>cfg \<in> set (allModelConfigs c). served e (modelPath cfg) \<noteq> Throws) \<and>
      length (allModelConfigs c) \<le> length (allRendererContainers c) \<longrightarrow>
        map config (viewers c') = allModelConfigs c \<and>
        map model (viewers c') =
          fresh_refs
            (length (objects w) +
             length (List.map_filter (resolved_object e)
                       (Array_from_Set (map modelPath (allModelConfigs c)))))
            (map (viewer_clone e) (allModelConfigs c)) \<and>
        objects w' =
          objects w @
          List.map_filter (resolved_object e)
            (Array_from_Set (map modelPath (allModelConfigs c))) @
          List.map_filter (viewer_clone e) (allModelConfigs c) \<and>
        (\<forall>v \<in> set (viewers c').
           refers (objects w') (model v) (viewer_clone e (config v)) \<and>
           (model v = None) = (resolved_object e (modelPath (config v)) = None))) \<and>
     Array_from_Set (map modelPath (allModelConfigs (new_WebglViewerComponent containers))) =
       [GLB_MODEL_PATH_G, GLB_MODEL_PATH_EDGE, GLB_MODEL_PATH_OPER]"
proof -
  let ?ups = "Array_from_Set (map modelPath (allModelConfigs c))"
  have static:
    "distinct ?ups" "set ?ups = modelPath ` set (allModelConfigs c)"
    "Array_from_Set (map modelPath (allModelConfigs (new_WebglViewerComponent containers))) =
       [GLB_MODEL_PATH_G, GLB_MODEL_PATH_EDGE, GLB_MODEL_PATH_OPER]"
    by (simp_all add: Array_from_Set_distinct Array_from_Set_set new_WebglViewerComponent_def
        initial_paths)
  consider
      (rejected) "\<exists>cfg \<in> set (allModelConfigs c). served e (modelPath cfg) = Throws"
    | (short) "\<forall>cfg \<in> set (allModelConfigs c). served e (modelPath cfg) \<noteq> Throws"
        "length (allRendererContainers c) < length (allModelConfigs c)"
    | (built) "\<forall>cfg \<in> set (allModelConfigs c). served e (modelPath cfg) \<noteq> Throws"
        "length (allModelConfigs c) \<le> length (allRendererContainers c)"
    by fastforce
  then show ?thesis
  proof cases
    case rejected
    have "ngAfterViewInit e c w =
        Some (c, emit (ConsoleError ''Initialization failed:'') (snd (loadModels e ?ups w)))"
      by (rule init_rejected [OF assms rejected])
    moreover have "\<not> (\<forall>cfg \<in> set (allModelConfigs c). served e (modelPath cfg) \<noteq> Throws)"
      using rejected by blast
    ultimately show ?thesis
      using static by (auto simp add: loadModels_requests)
  next
    case short
    have "ngAfterViewInit e c w =
        Some (c, emit (ConsoleError (missing_containers c)) (snd (loadModels e ?ups w)))"
      by (rule init_abort [OF assms short])
    moreover have "\<not> length (allModelConfigs c) \<le> length (allRendererContainers c)"
      using short(2) by simp
    ultimately show ?thesis
      using static by (simp add: loadModels_requests)
  next
    case built
    obtain vs w' where ok:
      "ngAfterViewInit e c w =
         Some (c\<lparr>viewers := vs, isLoaded := True, animateId := lastFrame w + 1\<rparr>, w')"
      "map config vs = allModelConfigs c"
      "map model vs =
         fresh_refs
           (length (objects w) + length (List.map_filter (resolved_object e) ?ups))
           (map (viewer_clone e) (allModelConfigs c))"
      "objects w' =
         objects w @ List.map_filter (resolved_object e) ?ups @
         List.map_filter (viewer_clone e) (allModelConfigs c)"
      "\<forall>v \<in> set vs. refers (objects w') (model v) (viewer_clone e (config v))"
      "requests (trace w') = requests (trace w) @ ?ups"
      using init_success [OF assms built, of w] by blast
    have "\<forall>v \<in> set vs.
            refers (objects w') (model v) (viewer_clone e (config v)) \<and>
            (model v = None) = (resolved_object e (modelPath (config v)) = None)"
      using ok(5) refers_None viewer_clone_None by blast
    then show ?thesis
      using ok(1,2,3,4,6) static by simp
  qed
qed

theorem init_loads_each_path_once_witness:
  "\<exists>c' w'.
     ngAfterViewInit example_env example_page new_page = Some (c', w') \<and>
     requests (trace w') = [GLB_MODEL_PATH_G, GLB_MODEL_PATH_EDGE, GLB_MODEL_PATH_OPER] \<and>
     length (objects w') = 19 \<and> length (viewers c') = 16 \<and>
     list_all (\<lambda>v. model v \<noteq> None) (viewers c')"
proof -
  have libs: "THREE_defined example_env \<and> GLTFLoader_defined example_env \<and>
              OrbitControls_defined example_env"
    by (simp add: example_env_def)
  have cfgs: "allModelConfigs example_page = initial_allModelConfigs"
    and enough: "length (allModelConfigs example_page) \<le> length (allRendererContainers example_page)"
    by (simp_all add: example_page_def new_WebglViewerComponent_def initial_length)
  have nothrow: "\<forall>cfg \<in> set (allModelConfigs example_page).
                   served example_env (modelPath cfg) \<noteq> Throws"
    by (simp add: example_env_no_throw)
  obtain c' w' where r:
    "ngAfterViewInit example_env example_page new_page = Some (c', w')"
    "requests (trace w') =
       requests (trace new_page) @ Array_from_Set (map modelPath (allModelConfigs example_page))"
    "map config (viewers c') = allModelConfigs example_page"
    "objects w' =
       objects new_page @
       List.map_filter (resolved_object example_env)
         (Array_from_Set (map modelPath (allModelConfigs example_page))) @
       List.map_filter (viewer_clone example_env) (allModelConfigs example_page)"
    "\<forall>v \<in> set (viewers c').
       refers (objects w') (model v) (viewer_clone example_env (config v)) \<and>
       (model v = None) = (resolved_object example_env (modelPath (config v)) = None)"
    using init_loads_each_path_once [OF libs, of example_page new_page] nothrow enough by blast
  have "requests (trace w') = [GLB_MODEL_PATH_G, GLB_MODEL_PATH_EDGE, GLB_MODEL_PATH_OPER]"
    using r(2) by (simp add: cfgs initial_paths new_page_def)
  moreover have "length (objects w') = 19"
  proof -
    have masters:
      "length (List.map_filter (resolved_object example_env)
                 (Array_from_Set (map modelPath initial_allModelConfigs))) = 3"
      by (subst length_map_filter_all) (simp_all add: example_env_resolves initial_paths)
    have clones:
      "length (List.map_filter (viewer_clone example_env) initial_allModelConfigs) = 16"
      by (subst length_map_filter_all)
        (simp_all add: viewer_clone_None example_env_resolves initial_length)
    show ?thesis
      by (simp add: r(4) cfgs masters clones new_page_def)
  qed
  moreover have "length (viewers c') = 16"
  proof -
    have "length (map config (viewers c')) = length initial_allModelConfigs"
      using r(3) by (simp only: cfgs)
    then show ?thesis by (simp add: initial_length)
  qed
  moreover have "list_all (\<lambda>v. model v \<noteq> None) (viewers c')"
    using r(5) by (simp add: list_all_iff example_env_resolves)
  ultimately show ?thesis using r(1) by blast
qed

text \<open>
  Not every viewer receives a clone. On the page with one config whose file loads
  without a scene, the path is requested once, the one viewer is built, and it holds
  no model: no object was made at all.
\<close>

theorem init_viewer_without_clone:
  "requests (trace (snd (the (ngAfterViewInit sceneless_env example_single_page new_page)))) =
     [GLB_MODEL_PATH_G] \<and>
   map model (viewers (fst (the (ngAfterViewInit sceneless_env example_single_page new_page)))) =
     [None] \<and>
   objects (snd (the (ngAfterViewInit sceneless_env example_single_page new_page))) = []"
proof -
  obtain vs w' where
    "ngAfterViewInit sceneless_env example_single_page new_page =
       Some (example_single_page\<lparr>viewers := vs, isLoaded := True, animateId := 1\<rparr>, w')"
    "map model vs = [None]" "objects w' = []" "requests (trace w') = [GLB_MODEL_PATH_G]"
    using sceneless_init by auto
  then show ?thesis by simp
qed

text \<open>
  Claim C9. When the library check resolves and there are fewer containers than
  configs, \<open>ngAfterViewInit\<close> completes with the component unchanged (so \<open>viewers\<close>
  stays empty and \<open>isLoaded\<close> false for a new component): no renderer and no
  controls were created, no frame was requested and nothing was rendered. When no
  request of a model threw, the last thing it did was to log the guard's error
  (a rejected load is caught before the guard is reached).
\<close>

theorem init_aborts_without_containers:
  assumes "THREE_defined e \<and> GLTFLoader_defined e \<and> OrbitControls_defined e"
    and "length (allRendererContainers c) < length (allModelConfigs c)"
  shows "\<exists>w'. ngAfterViewInit e c w = Some (c, w') \<and>
           renderers w' = renderers w \<and> orbitControls w' = orbitControls w \<and>
           pendingFrames w' = pendingFrames w \<and> lastFrame w' = lastFrame w \<and>
           renders (trace w') = renders (trace w) \<and>
           ((\<forall>cfg \<in> set (allModelConfigs c). served e (modelPath cfg) \<noteq> Throws) \<longrightarrow>
              last (trace w') = ConsoleError (missing_containers c))"
proof (cases "\<exists>cfg \<in> set (allModelConfigs c). served e (modelPath cfg) = Throws")
  case True
  show ?thesis
    using True by (auto simp add: init_rejected [OF assms(1) True] loadModels_frame loadModels_renders)
next
  case False
  then have nothrow: "\<forall>cfg \<in> set (allModelConfigs c). served e (modelPath cfg) \<noteq> Throws"
    by simp
  show ?thesis
    using False
    by (simp add: init_abort [OF assms(1) nothrow assms(2)] loadModels_frame loadModels_renders)
qed

theorem init_aborts_without_containers_witness:
  "\<exists>w'. ngAfterViewInit example_env example_short_page new_page = Some (example_short_page, w') \<and>
        renderers w' = [] \<and> pendingFrames w' = [] \<and>
        last (trace w') = ConsoleError ''Missing 15 DOM containers for models.'' \<and>
        viewers example_short_page = [] \<and> \<not> isLoaded example_short_page"
proof -
  have libs: "THREE_defined example_env \<and> GLTFLoader_defined example_env \<and>
              OrbitControls_defined example_env"
    by (simp add: example_env_def)
  have short: "length (allRendererContainers example_short_page) <
               length (allModelConfigs example_short_page)"
    by (simp add: example_short_page_def new_WebglViewerComponent_def initial_length)
  have message: "missing_containers example_short_page = ''Missing 15 DOM containers for models.''"
    by (simp add: missing_containers_def example_short_page_def new_WebglViewerComponent_def
        initial_length toString_def digit_def)
  obtain w' where
    "ngAfterViewInit example_env example_short_page new_page = Some (example_short_page, w')"
    "renderers w' = renderers new_page" "pendingFrames w' = pendingFrames new_page"
    "(\<forall>cfg \<in> set (allModelConfigs example_short_page).
        served example_env (modelPath cfg) \<noteq> Throws) \<longrightarrow>
     last (trace w') = ConsoleError (missing_containers example_short_page)"
    using init_aborts_without_containers [OF libs short, of new_page] by blast
  then show ?thesis
    by (auto simp add: new_page_def example_short_page_def new_WebglViewerComponent_def
        example_env_no_throw message [unfolded example_short_page_def new_WebglViewerComponent_def])
qed

text \<open>
  Claim C10. When \<open>ngAfterViewInit\<close> completes and has set \<open>isLoaded\<close>, the viewers
  array has one viewer per entry of \<open>allModelConfigs\<close>, in the same order; no request
  of a model threw; and a viewer has a model exactly when the load of its config's
  path resolved with an object, the loaded scene or the placeholder box: the model
  is then the viewer's clone of that object. So every viewer has a model when every
  load resolved with an object. A load that resolved with \<open>undefined\<close> (a file without
  a scene) leaves the viewers of its path without a model.
\<close>

theorem init_viewers_all_have_models:
  assumes "ngAfterViewInit e c w = Some (c', w')" and "\<not> isLoaded c" and "isLoaded c'"
  shows "length (viewers c') = length (allModelConfigs c) \<and>
         map config (viewers c') = allModelConfigs c \<and>
         allModelConfigs c' = allModelConfigs c \<and>
         (\<forall>cfg \<in> set (allModelConfigs c). served e (modelPath cfg) \<noteq> Throws) \<and>
         (\<forall>v \<in> set (viewers c').
            (model v \<noteq> None) = (resolved_object e (modelPath (config v)) \<noteq> None) \<and>
            refers (objects w') (model v) (viewer_clone e (config v))) \<and>
         ((\<forall>cfg \<in> set (allModelConfigs c). resolved_object e (modelPath cfg) \<noteq> None) \<longrightarrow>
            list_all (\<lambda>v. model v \<noteq> None) (viewers c'))"
proof -
  have libs: "THREE_defined e \<and> GLTFLoader_defined e \<and> OrbitControls_defined e"
    using assms(1) init_pending [of e c w] by auto
  have nothrow: "\<forall>cfg \<in> set (allModelConfigs c). served e (modelPath cfg) \<noteq> Throws"
  proof (rule ccontr)
    assume "\<not> (\<forall>cfg \<in> set (allModelConfigs c). served e (modelPath cfg) \<noteq> Throws)"
    then have "\<exists>cfg \<in> set (allModelConfigs c). served e (modelPath cfg) = Throws"
      by simp
    then have "c' = c"
      using init_rejected [OF libs, of c w] assms(1) by simp
    then show False using assms(2,3) by simp
  qed
  have enough: "length (allModelConfigs c) \<le> length (allRendererContainers c)"
  proof (rule ccontr)
    assume "\<not> length (allModelConfigs c) \<le> length (allRendererContainers c)"
    then have "length (allRendererContainers c) < length (allModelConfigs c)"
      by simp
    then have "c' = c"
      using init_abort [OF libs nothrow, of w] assms(1) by simp
    then show False using assms(2,3) by simp
  qed
  obtain vs w'' where ok:
    "ngAfterViewInit e c w =
       Some (c\<lparr>viewers := vs, isLoaded := True, animateId := lastFrame w + 1\<rparr>, w'')"
    "map config vs = allModelConfigs c"
    "\<forall>v \<in> set vs. refers (objects w'') (model v) (viewer_clone e (config v))"
    using init_success [OF libs nothrow enough, of w] by blast
  have c': "c' = c\<lparr>viewers := vs, isLoaded := True, animateId := lastFrame w + 1\<rparr>"
    and w': "w' = w''"
    using ok(1) assms(1) by simp_all
  have len: "length vs = length (allModelConfigs c)"
    using ok(2) by (metis length_map)
  have each: "(model v \<noteq> None) = (resolved_object e (modelPath (config v)) \<noteq> None) \<and>
              refers (objects w') (model v) (viewer_clone e (config v))"
    if "v \<in> set vs" for v
    using ok(3) that refers_None [of "objects w''" "model v" "viewer_clone e (config v)"]
    by (simp add: w' viewer_clone_None)
  have all: "list_all (\<lambda>v. model v \<noteq> None) vs"
    if full: "\<forall>cfg \<in> set (allModelConfigs c). resolved_object e (modelPath cfg) \<noteq> None"
  proof -
    have "model v \<noteq> None" if v: "v \<in> set vs" for v
    proof -
      have "config v \<in> set (map config vs)" using v by simp
      then have "config v \<in> set (allModelConfigs c)" by (simp only: ok(2))
      then show ?thesis using full each [OF v] by blast
    qed
    then show ?thesis by (simp add: list_all_iff)
  qed
  show ?thesis
    using len ok(2) nothrow each all by (simp add: c')
qed

theorem init_viewers_all_have_models_witness:
  "length (viewers (fst (the (ngAfterViewInit example_env example_page new_page)))) = 16 \<and>
   list_all (\<lambda>v. model v \<noteq> None)
     (viewers (fst (the (ngAfterViewInit example_env example_page new_page))))"
proof -
  have libs: "THREE_defined example_env \<and> GLTFLoader_defined example_env \<and>
              OrbitControls_defined example_env"
    by (simp add: example_env_def)
  have enough: "length (allModelConfigs example_page) \<le> length (allRendererContainers example_page)"
    by (simp add: example_page_def new_WebglViewerComponent_def initial_length)
  have nothrow: "\<forall>cfg \<in> set (allModelConfigs example_page).
                   served example_env (modelPath cfg) \<noteq> Throws"
    by (simp add: example_env_no_throw)
  obtain vs w' where r: "ngAfterViewInit example_env example_page new_page =
      Some (example_page\<lparr>viewers := vs, isLoaded := True, animateId := lastFrame new_page + 1\<rparr>, w')"
    using init_success [OF libs nothrow enough, of new_page] by blast
  have fresh: "\<not> isLoaded example_page"
    by (simp add: example_page_def new_WebglViewerComponent_def)
  have n: "length (allModelConfigs example_page) = 16"
    by (simp add: example_page_def new_WebglViewerComponent_def initial_length)
  have "length vs = length (allModelConfigs example_page) \<and> list_all (\<lambda>v. model v \<noteq> None) vs"
    using init_viewers_all_have_models [OF r fresh] by (simp add: example_env_resolves)
  then show ?thesis
    by (simp add: r n)
qed

text \<open>
  Not every viewer has a model when \<open>isLoaded\<close> is set. On the page with one config
  whose file loads without a scene, \<open>ngAfterViewInit\<close> sets \<open>isLoaded\<close> and the one
  viewer's model is \<open>undefined\<close>.
\<close>

theorem init_loaded_without_model:
  "isLoaded (fst (the (ngAfterViewInit sceneless_env example_single_page new_page))) \<and>
   \<not> isLoaded example_single_page \<and>
   length (viewers (fst (the (ngAfterViewInit sceneless_env example_single_page new_page)))) = 1 \<and>
   model (viewers (fst (the (ngAfterViewInit sceneless_env example_single_page new_page))) ! 0) =
     None"
proof -
  obtain vs w' where r:
    "ngAfterViewInit sceneless_env example_single_page new_page =
       Some (example_single_page\<lparr>viewers := vs, isLoaded := True, animateId := 1\<rparr>, w')"
    "map model vs = [None]"
    using sceneless_init by auto
  obtain v where "vs = [v]" "model v = None"
    using r(2) by auto
  then have "isLoaded (fst (the (ngAfterViewInit sceneless_env example_single_page new_page))) \<and>
      length (viewers (fst (the (ngAfterViewInit sceneless_env example_single_page new_page)))) = 1 \<and>
      model (viewers (fst (the (ngAfterViewInit sceneless_env example_single_page new_page))) ! 0) =
        None"
    by (simp add: r(1))
  moreover have "\<not> isLoaded example_single_page"
    by (simp add: example_single_page_def)
  ultimately show ?thesis by simp
qed

subsection \<open>Routing\<close>

text \<open>
  Claim C7. The routing table has exactly two routes: the empty path to
  \<open>WebglViewerComponent\<close> and \<open>about-us\<close> to \<open>AboutUsComponent\<close>.
\<close>

theorem routes_table:
  "length routes = 2 \<and> map path routes = [[], ''about-us''] \<and>
   map component routes = [WebglViewerComponent_class, AboutUsComponent_class]"
  by (simp add: routes_def)

end
